theory Spec2Isabelle
  imports Complex_Main
begin

section \<open>Double-precision values\<close>

text \<open>
  The C type \<open>pfloat\<close> is \<open>double\<close>. The model keeps the special values of IEEE 754
  that the control flow of \<open>scs.c\<close> depends on: \<open>NaN\<close>, the two infinities and the finite
  numbers. Every comparison with \<open>NaN\<close> is false, every arithmetic operation on \<open>NaN\<close> is
  \<open>NaN\<close>, and the indeterminate forms (\<open>\<infinity> - \<infinity>\<close>, \<open>0 \<sdot> \<infinity>\<close>, \<open>0 / 0\<close>, \<open>\<infinity> / \<infinity>\<close>) are \<open>NaN\<close>.
  Finite arithmetic is exact: rounding and overflow are not modelled, and there is one
  zero (a division by zero takes the sign of the numerator, as a division by \<open>+0\<close> does).
\<close>

datatype pfloat = NaN | PInf | NInf | Fin real

fun fneg :: "pfloat \<Rightarrow> pfloat" where
  "fneg NaN = NaN"
| "fneg PInf = NInf"
| "fneg NInf = PInf"
| "fneg (Fin x) = Fin (- x)"

fun fadd :: "pfloat \<Rightarrow> pfloat \<Rightarrow> pfloat" where
  "fadd (Fin x) (Fin y) = Fin (x + y)"
| "fadd NaN _ = NaN"
| "fadd _ NaN = NaN"
| "fadd PInf NInf = NaN"
| "fadd NInf PInf = NaN"
| "fadd PInf _ = PInf"
| "fadd _ PInf = PInf"
| "fadd NInf _ = NInf"
| "fadd _ NInf = NInf"

fun fmul :: "pfloat \<Rightarrow> pfloat \<Rightarrow> pfloat" where
  "fmul (Fin x) (Fin y) = Fin (x * y)"
| "fmul NaN _ = NaN"
| "fmul _ NaN = NaN"
| "fmul PInf PInf = PInf"
| "fmul PInf NInf = NInf"
| "fmul NInf PInf = NInf"
| "fmul NInf NInf = PInf"
| "fmul PInf (Fin y) = (if y = 0 then NaN else if 0 < y then PInf else NInf)"
| "fmul NInf (Fin y) = (if y = 0 then NaN else if y < 0 then PInf else NInf)"
| "fmul (Fin x) PInf = (if x = 0 then NaN else if 0 < x then PInf else NInf)"
| "fmul (Fin x) NInf = (if x = 0 then NaN else if x < 0 then PInf else NInf)"

fun fdiv :: "pfloat \<Rightarrow> pfloat \<Rightarrow> pfloat" where
  "fdiv (Fin x) (Fin y) =
     (if y = 0 then (if x = 0 then NaN else if 0 < x then PInf else NInf) else Fin (x / y))"
| "fdiv NaN _ = NaN"
| "fdiv _ NaN = NaN"
| "fdiv (Fin x) _ = Fin 0"
| "fdiv PInf (Fin y) = (if 0 \<le> y then PInf else NInf)"
| "fdiv NInf (Fin y) = (if y < 0 then PInf else NInf)"
| "fdiv _ _ = NaN"

fun flt :: "pfloat \<Rightarrow> pfloat \<Rightarrow> bool" where
  "flt (Fin x) (Fin y) = (x < y)"
| "flt NaN _ = False"
| "flt _ NaN = False"
| "flt _ NInf = False"
| "flt PInf _ = False"
| "flt _ _ = True"

fun fle :: "pfloat \<Rightarrow> pfloat \<Rightarrow> bool" where
  "fle (Fin x) (Fin y) = (x \<le> y)"
| "fle NaN _ = False"
| "fle _ NaN = False"
| "fle NInf _ = True"
| "fle _ PInf = True"
| "fle _ _ = False"

fun fsqrt :: "pfloat \<Rightarrow> pfloat" where
  "fsqrt (Fin x) = (if x < 0 then NaN else Fin (sqrt x))"
| "fsqrt PInf = PInf"
| "fsqrt _ = NaN"

text \<open>
  The C operators \<open>+ - * / < <=\<close> on \<open>pfloat\<close>. \<open>a > b\<close> is written \<open>b < a\<close> and
  \<open>a >= b\<close> is written \<open>b \<le> a\<close>; \<open>\<not> a < b\<close> is not \<open>b \<le> a\<close> here.
\<close>

instantiation pfloat :: "{plus, minus, uminus, times, inverse, ord}"
begin
definition plus_pfloat :: "pfloat \<Rightarrow> pfloat \<Rightarrow> pfloat" where
  "plus_pfloat = fadd"
definition uminus_pfloat :: "pfloat \<Rightarrow> pfloat" where
  "uminus_pfloat = fneg"
definition minus_pfloat :: "pfloat \<Rightarrow> pfloat \<Rightarrow> pfloat" where
  "minus_pfloat x y = fadd x (fneg y)"
definition times_pfloat :: "pfloat \<Rightarrow> pfloat \<Rightarrow> pfloat" where
  "times_pfloat = fmul"
definition divide_pfloat :: "pfloat \<Rightarrow> pfloat \<Rightarrow> pfloat" where
  "divide_pfloat = fdiv"
definition inverse_pfloat :: "pfloat \<Rightarrow> pfloat" where
  "inverse_pfloat x = fdiv (Fin 1) x"
definition less_pfloat :: "pfloat \<Rightarrow> pfloat \<Rightarrow> bool" where
  "less_pfloat = flt"
definition less_eq_pfloat :: "pfloat \<Rightarrow> pfloat \<Rightarrow> bool" where
  "less_eq_pfloat = fle"
instance ..
end

text \<open>The conversion \<open>(pfloat) i\<close> of an \<open>idxint\<close>.\<close>

definition of_idx :: "int \<Rightarrow> pfloat" where
  "of_idx i = Fin (real_of_int i)"

text \<open>
  Modelled from the spec: the macros \<open>ABS\<close> and \<open>MAX\<close> of the header \<open>scs.h\<close>, which is
  not among the sources. The spec writes \<open>|x|\<close> and \<open>max\<close>; they are taken as the usual
  conditional expressions \<open>((x) < 0 ? -(x) : (x))\<close> and \<open>((a) > (b) ? (a) : (b))\<close>.
\<close>

definition ABS :: "pfloat \<Rightarrow> pfloat" where
  "ABS x = (if x < Fin 0 then - x else x)"

definition MAX_pfloat :: "pfloat \<Rightarrow> pfloat \<Rightarrow> pfloat" where
  "MAX_pfloat a b = (if b < a then a else b)"

section \<open>Arrays and the vector kernels\<close>

text \<open>
  A C array is a list. \<open>upd_range off len f a\<close> is the loop
  \<open>for (i = 0; i < len; ++i) a[off + i] = f(i)\<close> on an array that holds the whole range;
  a write past the end of the array (undefined in C) is dropped, and a read past the end
  (\<open>xs ! i\<close> with \<open>i \<ge> length xs\<close>) is left unspecified.
\<close>

definition upd_range :: "nat \<Rightarrow> nat \<Rightarrow> (nat \<Rightarrow> 'a) \<Rightarrow> 'a list \<Rightarrow> 'a list" where
  "upd_range off len f a =
     map (\<lambda>i. if off \<le> i \<and> i < off + len then f (i - off) else a ! i) [0..<length a]"

text \<open>\<open>memcpy(&dst[off], src, len * sizeof(pfloat))\<close> and \<open>memset(dst, 0, len * sizeof(pfloat))\<close>.\<close>

definition memcpy :: "pfloat list \<Rightarrow> nat \<Rightarrow> pfloat list \<Rightarrow> int \<Rightarrow> pfloat list" where
  "memcpy dst off src len = upd_range off (nat len) (\<lambda>i. src ! i) dst"

definition memset0 :: "pfloat list \<Rightarrow> int \<Rightarrow> pfloat list" where
  "memset0 dst len = upd_range 0 (nat len) (\<lambda>i. Fin 0) dst"

text \<open>
  Modelled from the spec: the vector kernels of \<open>linAlg.c\<close> (scale-array, scaled-add, inner
  product, norm), which is not among the sources. The first array is updated in place from
  the offset \<open>off\<close> (the C call passes \<open>&a[off]\<close>); arrays that are only read are passed from
  their first entry (\<open>drop\<close>). A function that updates arrays of the workspace binds the
  array (\<open>u_t\<close>, \<open>u\<close>, \<open>v\<close>, \<open>h\<close>, \<open>g\<close>) statement by statement and stores it at the end.
\<close>

definition scaleArray :: "pfloat list \<Rightarrow> nat \<Rightarrow> pfloat \<Rightarrow> int \<Rightarrow> pfloat list" where
  "scaleArray a off sc len = upd_range off (nat len) (\<lambda>i. a ! (off + i) * sc) a"

definition addScaledArray ::
  "pfloat list \<Rightarrow> nat \<Rightarrow> pfloat list \<Rightarrow> int \<Rightarrow> pfloat \<Rightarrow> pfloat list" where
  "addScaledArray a off b len sc = upd_range off (nat len) (\<lambda>i. a ! (off + i) + sc * b ! i) a"

definition innerProd :: "pfloat list \<Rightarrow> pfloat list \<Rightarrow> int \<Rightarrow> pfloat" where
  "innerProd x y len = fold (\<lambda>i ip. ip + x ! i * y ! i) [0..<nat len] (Fin 0)"

definition calcNorm :: "pfloat list \<Rightarrow> int \<Rightarrow> pfloat" where
  "calcNorm v len = fsqrt (innerProd v v len)"

section \<open>The data model\<close>

text \<open>
  Modelled from the spec: the structs \<open>Data\<close>, \<open>Work\<close>, \<open>Sol\<close>, \<open>Info\<close> and
  \<open>struct residuals\<close> of \<open>scs.h\<close>, with the fields that \<open>scs.c\<close> reads and writes. An
  \<open>idxint\<close> is an \<open>int\<close>; a pointer that \<open>scs.c\<close> tests against \<open>NULL\<close> is an \<open>option\<close>
  (\<open>None\<close> is \<open>NULL\<close>). The fields \<open>m n Ax Ai Ap b c\<close> of \<open>Data\<close> carry the prefix \<open>d_\<close>, those
  of \<open>Work\<close> the prefix \<open>w_\<close>, and so on.
\<close>

record Data =
  d_m :: int
  d_n :: int
  d_Ax :: "pfloat list option"
  d_Ai :: "int list option"
  d_Ap :: "int list option"
  d_b :: "pfloat list option"
  d_c :: "pfloat list option"
  MAX_ITERS :: int
  EPS :: pfloat
  ALPHA :: pfloat
  UNDET_TOL :: pfloat
  RHO_X :: pfloat
  VERBOSE :: int
  NORMALIZE :: int
  WARM_START :: int

record Work =
  w_u :: "pfloat list"
  w_v :: "pfloat list"
  w_u_t :: "pfloat list"
  w_u_prev :: "pfloat list"
  w_h :: "pfloat list"
  w_g :: "pfloat list"
  w_pr :: "pfloat list"
  w_dr :: "pfloat list"
  w_gTh :: pfloat
  w_sc_b :: pfloat
  w_sc_c :: pfloat
  w_scale :: pfloat
  w_nm_b :: pfloat
  w_nm_c :: pfloat
  w_meanNormRowA :: pfloat
  w_D :: "pfloat list option"
  w_E :: "pfloat list option"
  w_l :: int
  w_method :: "string option"

record Sol =
  sol_x :: "pfloat list option"
  sol_y :: "pfloat list option"
  sol_s :: "pfloat list option"

record Info =
  info_iter :: int
  info_status :: string
  statusVal :: int
  info_pobj :: pfloat
  info_dobj :: pfloat
  info_resPri :: pfloat
  info_resDual :: pfloat
  info_relGap :: pfloat
  info_time :: pfloat

record residuals =
  r_resPri :: pfloat
  r_resDual :: pfloat
  r_relGap :: pfloat
  r_cTx :: pfloat
  r_bTy :: pfloat
  r_tau :: pfloat
  r_kap :: pfloat

definition CONVERGED_INTERVAL :: int where "CONVERGED_INTERVAL = 20"
definition PRINT_INTERVAL :: int where "PRINT_INTERVAL = 100"
definition FAILURE :: int where "FAILURE = - 4"
definition INDETERMINATE :: int where "INDETERMINATE = - 3"
definition INFEASIBLE :: int where "INFEASIBLE = - 2"
definition UNBOUNDED :: int where "UNBOUNDED = - 1"
definition SOLVED :: int where "SOLVED = 1"

text \<open>
  Modelled from the spec: the sparse primitives \<open>accumByAtrans\<close> (\<open>y += A'x\<close>) and
  \<open>accumByA\<close> (\<open>y += Ax\<close>) of \<open>linAlg.c\<close>, on the compressed-column form of section 3 of
  the spec: column \<open>j\<close> holds the entries \<open>Ax[p]\<close> in rows \<open>Ai[p]\<close> for
  \<open>Ap[j] \<le> p < Ap[j+1]\<close>.
\<close>

definition accumByAtrans :: "Data \<Rightarrow> pfloat list \<Rightarrow> pfloat list \<Rightarrow> pfloat list" where
  "accumByAtrans d x y =
     upd_range 0 (nat (d_n d))
       (\<lambda>j. fold (\<lambda>p yj. yj + the (d_Ax d) ! p * x ! nat (the (d_Ai d) ! p))
               [nat (the (d_Ap d) ! j)..<nat (the (d_Ap d) ! (j + 1))] (y ! j)) y"

definition accumByA :: "Data \<Rightarrow> pfloat list \<Rightarrow> pfloat list \<Rightarrow> pfloat list" where
  "accumByA d x y =
     fold (\<lambda>j y. fold (\<lambda>p y. y[nat (the (d_Ai d) ! p) :=
                                y ! nat (the (d_Ai d) ! p) + the (d_Ax d) ! p * x ! j])
                    [nat (the (d_Ap d) ! j)..<nat (the (d_Ap d) ! (j + 1))] y)
       [0..<nat (d_n d)] y"

section \<open>Residuals and the convergence test\<close>

text \<open>
  The loop shared by \<open>calcPrimalResid\<close> and \<open>fastCalcPrimalResid\<close>: it returns
  \<open>(nmAxs, pres)\<close> before the square roots.
\<close>

definition primalResidLoop :: "Data \<Rightarrow> Work \<Rightarrow> pfloat list \<Rightarrow> pfloat \<Rightarrow> pfloat \<times> pfloat" where
  "primalResidLoop d w pr tau =
     fold (\<lambda>i (nmAxs, pres).
        let scale = (if NORMALIZE d \<noteq> 0 then the (w_D w) ! i / (w_sc_b w * w_scale w) else Fin 1);
            scale = scale * scale
        in (nmAxs + (pr ! i * pr ! i) * scale,
            pres + (pr ! i - the (d_b d) ! i * tau) * (pr ! i - the (d_b d) ! i * tau) * scale))
       [0..<nat (d_m d)] (Fin 0, Fin 0)"

text \<open>The functions return \<open>(result, *nmAxs, w)\<close>: the scratch array \<open>w->pr\<close> is overwritten.\<close>

definition calcPrimalResid ::
  "Data \<Rightarrow> Work \<Rightarrow> pfloat list \<Rightarrow> pfloat list \<Rightarrow> pfloat \<Rightarrow> pfloat \<times> pfloat \<times> Work" where
  "calcPrimalResid d w x s tau =
     (let pr = memset0 (w_pr w) (d_m d);
          pr = accumByA d x pr;
          pr = addScaledArray pr 0 s (d_m d) (Fin 1);
          (nmAxs, pres) = primalResidLoop d w pr tau
      in (fsqrt pres, fsqrt nmAxs, w\<lparr>w_pr := pr\<rparr>))"

definition calcDualResid ::
  "Data \<Rightarrow> Work \<Rightarrow> pfloat list \<Rightarrow> pfloat \<Rightarrow> pfloat \<times> pfloat \<times> Work" where
  "calcDualResid d w y tau =
     (let dr = memset0 (w_dr w) (d_n d);
          dr = accumByAtrans d y dr;
          (nmATy, dres) =
            fold (\<lambda>i (nmATy, dres).
               let scale = (if NORMALIZE d \<noteq> 0 then the (w_E w) ! i / (w_sc_c w * w_scale w)
                            else Fin 1);
                   scale = scale * scale
               in (nmATy + (dr ! i * dr ! i) * scale,
                   dres + (dr ! i + the (d_c d) ! i * tau) * (dr ! i + the (d_c d) ! i * tau) * scale))
              [0..<nat (d_n d)] (Fin 0, Fin 0)
      in (fsqrt dres, fsqrt nmATy, w\<lparr>w_dr := dr\<rparr>))"

text \<open>The first four statements of \<open>fastCalcPrimalResid\<close>: \<open>pr = Ax + s\<close> without a product by \<open>A\<close>.\<close>

definition fast_pr :: "Data \<Rightarrow> Work \<Rightarrow> pfloat list" where
  "fast_pr d w =
     (let pr = memcpy (w_pr w) 0 (drop (nat (d_n d)) (w_u w)) (d_m d);
          pr = addScaledArray pr 0 (drop (nat (d_n d)) (w_u_prev w)) (d_m d) (ALPHA d - Fin 2);
          pr = addScaledArray pr 0 (drop (nat (d_n d)) (w_u_t w)) (d_m d) (Fin 1 - ALPHA d);
          pr = addScaledArray pr 0 (the (d_b d)) (d_m d) (w_u_t w ! nat (w_l w - 1))
      in pr)"

definition fastCalcPrimalResid :: "Data \<Rightarrow> Work \<Rightarrow> pfloat \<times> pfloat \<times> Work" where
  "fastCalcPrimalResid d w =
     (let tau = ABS (w_u w ! nat (w_l w - 1));
          pr = fast_pr d w;
          (nmAxs, pres) = primalResidLoop d w pr tau
      in (fsqrt pres, fsqrt nmAxs, w\<lparr>w_pr := pr\<rparr>))"

text \<open>
  \<open>exactConverged\<close> returns the status with the workspace (its scratch arrays are
  overwritten) and the residuals record \<open>r\<close> it fills for the summary line.
\<close>

definition exactConverged :: "Data \<Rightarrow> Work \<Rightarrow> residuals \<Rightarrow> int \<times> Work \<times> residuals" where
  "exactConverged d w r =
     (let x = w_u w;
          y = drop (nat (d_n d)) (w_u w);
          tau = ABS (w_u w ! nat (w_l w - 1));
          kap = ABS (w_v w ! nat (w_l w - 1));
          r = r\<lparr>r_tau := tau, r_kap := kap\<rparr>;
          (nmpr, nmAxs, w) = fastCalcPrimalResid d w;
          cTx = innerProd x (the (d_c d)) (d_n d);
          kap = (if NORMALIZE d \<noteq> 0 then kap / (w_scale w * w_sc_c w * w_sc_b w) else kap);
          cTx = (if NORMALIZE d \<noteq> 0 then cTx / (w_scale w * w_sc_c w * w_sc_b w) else cTx);
          r = r\<lparr>r_resPri := (if cTx < Fin 0 then w_nm_c w * nmAxs / (- cTx) else NaN)\<rparr>
      in if r_resPri r < EPS d then (UNBOUNDED, w, r)
         else
          (let (nmdr, nmATy, w) = calcDualResid d w y tau;
               bTy = innerProd y (the (d_b d)) (d_m d);
               bTy = (if NORMALIZE d \<noteq> 0 then bTy / (w_scale w * w_sc_c w * w_sc_b w) else bTy);
               r = r\<lparr>r_resDual := (if bTy < Fin 0 then w_nm_b w * nmATy / (- bTy) else NaN)\<rparr>
           in if r_resDual r < EPS d then (INFEASIBLE, w, r)
              else
               (let r = r\<lparr>r_relGap := NaN\<rparr>
                in if kap < tau then
                     (let rpri = nmpr / (Fin 1 + w_nm_b w) / tau;
                          rdua = nmdr / (Fin 1 + w_nm_c w) / tau;
                          gap = ABS (cTx + bTy) / (tau + ABS cTx + ABS bTy);
                          r = r\<lparr>r_resPri := rpri, r_resDual := rdua, r_relGap := gap,
                                r_cTx := cTx / tau, r_bTy := bTy / tau\<rparr>
                      in if MAX_pfloat (MAX_pfloat rpri rdua) gap < EPS d then (SOLVED, w, r) else (0, w, r))
                   else (0, w, r\<lparr>r_cTx := NaN, r_bTy := NaN\<rparr>))))"

definition converged :: "Data \<Rightarrow> Work \<Rightarrow> residuals \<Rightarrow> int \<Rightarrow> int \<times> Work \<times> residuals" where
  "converged d w r iter =
     (if iter mod CONVERGED_INTERVAL = 0 then exactConverged d w r else (0, w, r))"

text \<open>
  The quantities of the convergence test, as \<open>exactConverged\<close> computes them from the
  workspace: \<open>\<tau>\<close>, \<open>\<kappa>\<close>, \<open>cTx\<close>, \<open>bTy\<close> (the last three divided by \<open>scale * sc_c * sc_b\<close> when
  the data is normalized), the residual norms \<open>nmpr\<close>, \<open>nmdr\<close> and the norms \<open>nm_Axs\<close>,
  \<open>nm_ATy\<close>.
\<close>

definition ec_tau :: "Work \<Rightarrow> pfloat" where
  "ec_tau w = ABS (w_u w ! nat (w_l w - 1))"

definition ec_kap :: "Data \<Rightarrow> Work \<Rightarrow> pfloat" where
  "ec_kap d w =
     (if NORMALIZE d \<noteq> 0
      then ABS (w_v w ! nat (w_l w - 1)) / (w_scale w * w_sc_c w * w_sc_b w)
      else ABS (w_v w ! nat (w_l w - 1)))"

definition ec_cTx :: "Data \<Rightarrow> Work \<Rightarrow> pfloat" where
  "ec_cTx d w =
     (if NORMALIZE d \<noteq> 0
      then innerProd (w_u w) (the (d_c d)) (d_n d) / (w_scale w * w_sc_c w * w_sc_b w)
      else innerProd (w_u w) (the (d_c d)) (d_n d))"

definition ec_bTy :: "Data \<Rightarrow> Work \<Rightarrow> pfloat" where
  "ec_bTy d w =
     (if NORMALIZE d \<noteq> 0
      then innerProd (drop (nat (d_n d)) (w_u w)) (the (d_b d)) (d_m d)
             / (w_scale w * w_sc_c w * w_sc_b w)
      else innerProd (drop (nat (d_n d)) (w_u w)) (the (d_b d)) (d_m d))"

definition ec_nmpr :: "Data \<Rightarrow> Work \<Rightarrow> pfloat" where
  "ec_nmpr d w = fst (fastCalcPrimalResid d w)"

definition ec_nmAxs :: "Data \<Rightarrow> Work \<Rightarrow> pfloat" where
  "ec_nmAxs d w = fst (snd (fastCalcPrimalResid d w))"

definition ec_nmdr :: "Data \<Rightarrow> Work \<Rightarrow> pfloat" where
  "ec_nmdr d w =
     fst (calcDualResid d (snd (snd (fastCalcPrimalResid d w)))
            (drop (nat (d_n d)) (w_u w)) (ec_tau w))"

definition ec_nmATy :: "Data \<Rightarrow> Work \<Rightarrow> pfloat" where
  "ec_nmATy d w =
     fst (snd (calcDualResid d (snd (snd (fastCalcPrimalResid d w)))
                 (drop (nat (d_n d)) (w_u w)) (ec_tau w)))"

definition unbounded_ratio :: "Data \<Rightarrow> Work \<Rightarrow> pfloat" where
  "unbounded_ratio d w = w_nm_c w * ec_nmAxs d w / (- ec_cTx d w)"

definition infeasible_ratio :: "Data \<Rightarrow> Work \<Rightarrow> pfloat" where
  "infeasible_ratio d w = w_nm_b w * ec_nmATy d w / (- ec_bTy d w)"

definition rel_gap :: "Data \<Rightarrow> Work \<Rightarrow> pfloat" where
  "rel_gap d w =
     ABS (ec_cTx d w + ec_bTy d w) / (ec_tau w + ABS (ec_cTx d w) + ABS (ec_bTy d w))"

section \<open>External collaborators and output\<close>

text \<open>
  The linear-system subsolver, the cone module, the normalizer and the clock are not part of
  \<open>scs.c\<close>; they are parameters of the model, collected in a record. Each is a function of
  its arguments; a result that the C function stores through a pointer is returned and
  written back by the caller to the entries the interface names (the first \<open>l - 1\<close>
  entries for \<open>solveLinSys\<close>, \<open>m\<close> entries for \<open>projCone\<close>). \<open>malloc_junk\<close> and
  \<open>malloc_Work\<close> stand for the indeterminate contents of fresh memory.
\<close>

record 'k ext =
  solveLinSys :: "Data \<Rightarrow> Work \<Rightarrow> pfloat list \<Rightarrow> pfloat list option \<Rightarrow> int \<Rightarrow> pfloat list"
  projCone :: "pfloat list \<Rightarrow> 'k \<Rightarrow> int \<Rightarrow> pfloat list"
  validateCones :: "'k \<Rightarrow> int"
  getFullConeDims :: "'k \<Rightarrow> int"
  initCone :: "'k \<Rightarrow> int"
  privateInitWork :: "Data \<Rightarrow> Work \<Rightarrow> int \<times> Work"
  getConeHeader :: "'k \<Rightarrow> string"
  getLinSysSummary :: "Info \<Rightarrow> string option"
  normalizeA :: "Data \<Rightarrow> Work \<Rightarrow> 'k \<Rightarrow> Data \<times> Work"
  normalizeBC :: "Data \<Rightarrow> Work \<Rightarrow> Data \<times> Work"
  normalizeWarmStart :: "Data \<Rightarrow> Work \<Rightarrow> Work"
  unNormalizeSolBC :: "Data \<Rightarrow> Work \<Rightarrow> Sol \<Rightarrow> Data \<times> Sol"
  unNormalizeA :: "Data \<Rightarrow> Work \<Rightarrow> Data"
  tocq :: pfloat
  malloc_junk :: pfloat
  malloc_Work :: Work

text \<open>
  Standard output is the list of the \<open>scs_printf\<close> calls, each with its format string and
  its arguments.
\<close>

datatype parg = PI int | PF pfloat | PS string

type_synonym out = "(string \<times> parg list) list"

definition scs_malloc :: "'k ext \<Rightarrow> int \<Rightarrow> pfloat list" where
  "scs_malloc E len = replicate (nat len) (malloc_junk E)"

section \<open>Validation and the failure return\<close>

definition validate :: "'k ext \<Rightarrow> Data \<Rightarrow> 'k \<Rightarrow> int \<times> out" where
  "validate E d k =
     (if d_Ax d = None \<or> d_Ai d = None \<or> d_Ap d = None \<or> d_b d = None \<or> d_c d = None
      then (- 1, [(''data incompletely specified\<newline>'', [])])
      else if d_m d \<le> 0 \<or> d_n d \<le> 0
      then (- 1, [(''m and n must both be greater than 0\<newline>'', [])])
      else if d_m d < d_n d
      then (- 1, [(''m must be greater than or equal to n\<newline>'', [])])
      else if list_ex (\<lambda>i. the (d_Ap d) ! (i + 1) \<le> the (d_Ap d) ! i) [0..<nat (d_n d)]
      then (- 1, [(''Ap not strictly increasing\<newline>'', [])])
      else
       (let Anz = the (d_Ap d) ! nat (d_n d) in
        if of_idx (d_n d) < of_idx Anz / of_idx (d_m d) \<or> Anz \<le> 0
        then (- 1, [(''Anz (nonzeros in A) = %i, outside of valid range\<newline>'', [PI Anz])])
        else
         (let rMax = fold (\<lambda>i rMax. if rMax < the (d_Ai d) ! i then the (d_Ai d) ! i else rMax)
                       [0..<nat Anz] 0 in
          if d_m d - 1 < rMax
          then (- 1, [(''number of rows in A inconsistent with input dimension\<newline>'', [])])
          else if validateCones E k < 0
          then (- 1, [(''invalid cone dimensions\<newline>'', [])])
          else if getFullConeDims E k \<noteq> d_m d
          then (- 1, [(''cone dimensions %i not equal to num rows in A = m = %i\<newline>'',
                       [PI (getFullConeDims E k), PI (d_m d)])])
          else if MAX_ITERS d < 0
          then (- 1, [(''MAX_ITERS must be positive\<newline>'', [])])
          else if EPS d < Fin 0
          then (- 1, [(''EPS tolerance must be positive\<newline>'', [])])
          else if ALPHA d \<le> Fin 0 \<or> Fin 2 \<le> ALPHA d
          then (- 1, [(''ALPHA must be in (0,2)\<newline>'', [])])
          else if RHO_X d < Fin 0
          then (- 1, [(''RHO_X must be positive (1e-3 works well).\<newline>'', [])])
          else (0, []))))"

definition failureDefaultReturn :: "'k ext \<Rightarrow> Data \<Rightarrow> Sol \<Rightarrow> Info \<Rightarrow> Sol \<times> Info \<times> out" where
  "failureDefaultReturn E d sol info =
     (let info = info\<lparr>info_relGap := NaN, info_resPri := NaN, info_resDual := NaN,
                      info_pobj := NaN, info_dobj := NaN, info_iter := - 1,
                      statusVal := FAILURE, info_time := NaN, info_status := ''Failure''\<rparr>;
          sol = sol\<lparr>sol_x := Some (scaleArray (scs_malloc E (d_n d)) 0 NaN (d_n d))\<rparr>;
          sol = sol\<lparr>sol_y := Some (scaleArray (scs_malloc E (d_m d)) 0 NaN (d_m d))\<rparr>;
          sol = sol\<lparr>sol_s := Some (scaleArray (scs_malloc E (d_m d)) 0 NaN (d_m d))\<rparr>
      in (sol, info, [(''FAILURE\<newline>'', [])]))"

section \<open>Workspace\<close>

text \<open>
  \<open>scs_finish\<close> undoes the normalization of \<open>A\<close>; the release of memory is not modelled.
\<close>

definition scs_finish :: "'k ext \<Rightarrow> Data \<Rightarrow> Work \<Rightarrow> Data" where
  "scs_finish E d w = (if NORMALIZE d \<noteq> 0 then unNormalizeA E d w else d)"

text \<open>\<open>initWork\<close> returns the workspace (\<open>None\<close> is \<open>NULL\<close>), the data and the output.\<close>

definition initWork :: "'k ext \<Rightarrow> Data \<Rightarrow> 'k \<Rightarrow> Sol \<Rightarrow> Work option \<times> Data \<times> out" where
  "initWork E d k sol =
     (let w = malloc_Work E;
          (d, w) = (if NORMALIZE d \<noteq> 0 then normalizeA E d w k
                    else (d, w\<lparr>w_D := None, w_E := None, w_meanNormRowA := Fin 0,
                               w_sc_c := Fin 1, w_sc_b := Fin 1, w_scale := Fin 1\<rparr>));
          w = w\<lparr>w_l := d_n d + d_m d + 1\<rparr>;
          w = w\<lparr>w_u := scs_malloc E (w_l w)\<rparr>;
          w = w\<lparr>w_v := scs_malloc E (w_l w)\<rparr>;
          w = w\<lparr>w_u_t := scs_malloc E (w_l w)\<rparr>;
          w = w\<lparr>w_u_prev := scs_malloc E (w_l w)\<rparr>;
          w = w\<lparr>w_h := scs_malloc E (w_l w - 1)\<rparr>;
          w = w\<lparr>w_g := scs_malloc E (w_l w - 1)\<rparr>;
          w = w\<lparr>w_pr := scs_malloc E (d_m d)\<rparr>;
          w = w\<lparr>w_dr := scs_malloc E (d_n d)\<rparr>;
          (status, w) = privateInitWork E d w
      in if status < 0
         then (None, scs_finish E d w, [(''privateInitWork failure: %i\<newline>'', [PI status])])
         else
          (let status = initCone E k
           in if status < 0
              then (None, scs_finish E d w, [(''initCone failure: %i\<newline>'', [PI status])])
              else (Some w, d, [])))"

text \<open>
  \<open>scs_init\<close>. The cone pointer \<open>k\<close> may be \<open>NULL\<close>; the data pointer \<open>d\<close> is taken to be
  valid (with \<open>d == NULL\<close> the C code reads \<open>d->n\<close> in \<open>failureDefaultReturn\<close>).
\<close>

definition scs_init ::
  "'k ext \<Rightarrow> Data \<Rightarrow> 'k option \<Rightarrow> Sol \<Rightarrow> Info \<Rightarrow> Work option \<times> Data \<times> Sol \<times> Info \<times> out" where
  "scs_init E d k sol info =
     (case k of
        None \<Rightarrow> (let (sol, info, o1) = failureDefaultReturn E d sol info
                 in (None, d, sol, info, o1))
      | Some k \<Rightarrow>
         (let (v, o1) = validate E d k
          in if v < 0
             then (let (sol, info, o2) = failureDefaultReturn E d sol info
                   in (None, d, sol, info, o1 @ o2))
             else
              (let (w, d, o2) = initWork E d k sol
               in case w of
                    None \<Rightarrow> (let (sol, info, o3) = failureDefaultReturn E d sol info
                             in (None, d, sol, info, o1 @ o2 @ o3))
                  | Some w \<Rightarrow> (Some w, d, sol, info, o1 @ o2))))"

definition warmStartVars :: "'k ext \<Rightarrow> Data \<Rightarrow> Work \<Rightarrow> Sol \<Rightarrow> Work" where
  "warmStartVars E d w sol =
     (let v = memset0 (w_v w) (d_n d);
          u = memcpy (w_u w) 0 (the (sol_x sol)) (d_n d);
          u = memcpy u (nat (d_n d)) (the (sol_y sol)) (d_m d);
          v = memcpy v (nat (d_n d)) (the (sol_s sol)) (d_m d);
          u = u[nat (w_l w - 1) := Fin 1];
          v = v[nat (w_l w - 1) := Fin 0];
          w = w\<lparr>w_u := u, w_v := v\<rparr>
      in if NORMALIZE d \<noteq> 0 then normalizeWarmStart E d w else w)"

definition coldStartVars :: "Data \<Rightarrow> Work \<Rightarrow> Work" where
  "coldStartVars d w =
     (let u = memset0 (w_u w) (w_l w);
          v = memset0 (w_v w) (w_l w);
          u = u[nat (w_l w - 1) := fsqrt (of_idx (w_l w))];
          v = v[nat (w_l w - 1) := fsqrt (of_idx (w_l w))]
      in w\<lparr>w_u := u, w_v := v\<rparr>)"

text \<open>
  \<open>solve_in_place E d w b s iter\<close> is the call \<open>solveLinSys(d, w, b, s, iter)\<close>: the
  subsolver reads the first \<open>l - 1\<close> entries of \<open>b\<close> and overwrites them with the solution.
\<close>

definition solve_in_place ::
  "'k ext \<Rightarrow> Data \<Rightarrow> Work \<Rightarrow> pfloat list \<Rightarrow> pfloat list option \<Rightarrow> int \<Rightarrow> pfloat list" where
  "solve_in_place E d w b s iter =
     memcpy b 0 (solveLinSys E d w (take (nat (w_l w - 1)) b) s iter) (w_l w - 1)"

definition updateWork :: "'k ext \<Rightarrow> Data \<Rightarrow> Work \<Rightarrow> Sol \<Rightarrow> Data \<times> Work" where
  "updateWork E d w sol =
     (let w = w\<lparr>w_nm_b := calcNorm (the (d_b d)) (d_m d)\<rparr>;
          w = w\<lparr>w_nm_c := calcNorm (the (d_c d)) (d_n d)\<rparr>;
          (d, w) = (if NORMALIZE d \<noteq> 0 then normalizeBC E d w else (d, w));
          w = (if WARM_START d \<noteq> 0 then warmStartVars E d w sol else coldStartVars d w);
          h = memcpy (w_h w) 0 (the (d_c d)) (d_n d);
          h = memcpy h (nat (d_n d)) (the (d_b d)) (d_m d);
          g = memcpy (w_g w) 0 h (w_l w - 1);
          g = solve_in_place E d (w\<lparr>w_h := h, w_g := g\<rparr>) g None (- 1);
          g = scaleArray g (nat (d_n d)) (Fin (- 1)) (d_m d)
      in (d, w\<lparr>w_h := h, w_g := g, w_gTh := innerProd h g (w_l w - 1)\<rparr>))"

section \<open>The three phases of an iteration\<close>

definition projectLinSys :: "'k ext \<Rightarrow> Data \<Rightarrow> Work \<Rightarrow> int \<Rightarrow> Work" where
  "projectLinSys E d w iter =
     (let u_t = memcpy (w_u_t w) 0 (w_u w) (w_l w);
          u_t = addScaledArray u_t 0 (w_v w) (w_l w) (Fin 1);
          u_t = scaleArray u_t 0 (RHO_X d) (d_n d);
          u_t = addScaledArray u_t 0 (w_h w) (w_l w - 1) (- (u_t ! nat (w_l w - 1)));
          u_t = addScaledArray u_t 0 (w_h w) (w_l w - 1)
                  (- innerProd u_t (w_g w) (w_l w - 1) / (w_gTh w + Fin 1));
          u_t = scaleArray u_t (nat (d_n d)) (Fin (- 1)) (d_m d);
          u_t = solve_in_place E d (w\<lparr>w_u_t := u_t\<rparr>) u_t (Some (w_u w)) iter;
          u_t = u_t[nat (w_l w - 1) := u_t ! nat (w_l w - 1) + innerProd u_t (w_h w) (w_l w - 1)]
      in w\<lparr>w_u_t := u_t\<rparr>)"

text \<open>
  \<open>projCone(&(w->u[d->n]), k, iter)\<close>: the cone module reads the \<open>m\<close> entries of the
  \<open>y\<close> block and overwrites them with their projection.
\<close>

definition projectCones :: "'k ext \<Rightarrow> Data \<Rightarrow> Work \<Rightarrow> 'k \<Rightarrow> int \<Rightarrow> Work" where
  "projectCones E d w k iter =
     (let u = upd_range 0 (nat (d_n d)) (\<lambda>i. w_u_t w ! i - w_v w ! i) (w_u w);
          u = upd_range (nat (d_n d)) (nat (w_l w - d_n d))
                (\<lambda>j. let i = nat (d_n d) + j in
                      ALPHA d * w_u_t w ! i + (Fin 1 - ALPHA d) * w_u_prev w ! i - w_v w ! i) u;
          u = memcpy u (nat (d_n d))
                (projCone E (take (nat (d_m d)) (drop (nat (d_n d)) u)) k iter) (d_m d);
          u = (if u ! nat (w_l w - 1) < Fin 0 then u[nat (w_l w - 1) := Fin 0] else u)
      in w\<lparr>w_u := u\<rparr>)"

definition updateDualVars :: "Data \<Rightarrow> Work \<Rightarrow> Work" where
  "updateDualVars d w =
     (if ABS (ALPHA d - Fin 1) < Fin (1 / 1000000000)
      then
       (let sig = Fin 1
        in w\<lparr>w_v := upd_range (nat (d_n d)) (nat (w_l w - d_n d))
                  (\<lambda>j. let i = nat (d_n d) + j in w_v w ! i + sig * (w_u w ! i - w_u_t w ! i))
                  (w_v w)\<rparr>)
      else
       w\<lparr>w_v := upd_range (nat (d_n d)) (nat (w_l w - d_n d))
                 (\<lambda>j. let i = nat (d_n d) + j in
                       w_v w ! i + (w_u w ! i - ALPHA d * w_u_t w ! i
                                      - (Fin 1 - ALPHA d) * w_u_prev w ! i))
                 (w_v w)\<rparr>)"

section \<open>Solution extraction\<close>

definition setx :: "'k ext \<Rightarrow> Data \<Rightarrow> Work \<Rightarrow> Sol \<Rightarrow> Sol" where
  "setx E d w sol =
     (let sol = (if sol_x sol = None then sol\<lparr>sol_x := Some (scs_malloc E (d_n d))\<rparr> else sol)
      in sol\<lparr>sol_x := Some (memcpy (the (sol_x sol)) 0 (w_u w) (d_n d))\<rparr>)"

definition sety :: "'k ext \<Rightarrow> Data \<Rightarrow> Work \<Rightarrow> Sol \<Rightarrow> Sol" where
  "sety E d w sol =
     (let sol = (if sol_y sol = None then sol\<lparr>sol_y := Some (scs_malloc E (d_m d))\<rparr> else sol)
      in sol\<lparr>sol_y := Some (memcpy (the (sol_y sol)) 0 (drop (nat (d_n d)) (w_u w)) (d_m d))\<rparr>)"

definition sets :: "'k ext \<Rightarrow> Data \<Rightarrow> Work \<Rightarrow> Sol \<Rightarrow> Sol" where
  "sets E d w sol =
     (let sol = (if sol_s sol = None then sol\<lparr>sol_s := Some (scs_malloc E (d_m d))\<rparr> else sol)
      in sol\<lparr>sol_s := Some (memcpy (the (sol_s sol)) 0 (drop (nat (d_n d)) (w_v w)) (d_m d))\<rparr>)"

text \<open>The four status functions return \<open>(status, sol, info)\<close>.\<close>

definition solved :: "Data \<Rightarrow> Sol \<Rightarrow> Info \<Rightarrow> pfloat \<Rightarrow> int \<times> Sol \<times> Info" where
  "solved d sol info tau =
     (let info = info\<lparr>info_status := ''Solved''\<rparr>;
          sol = sol\<lparr>sol_x := Some (scaleArray (the (sol_x sol)) 0 (Fin 1 / tau) (d_n d))\<rparr>;
          sol = sol\<lparr>sol_y := Some (scaleArray (the (sol_y sol)) 0 (Fin 1 / tau) (d_m d))\<rparr>;
          sol = sol\<lparr>sol_s := Some (scaleArray (the (sol_s sol)) 0 (Fin 1 / tau) (d_m d))\<rparr>
      in (SOLVED, sol, info))"

definition indeterminate :: "Data \<Rightarrow> Sol \<Rightarrow> Info \<Rightarrow> int \<times> Sol \<times> Info" where
  "indeterminate d sol info =
     (let info = info\<lparr>info_status := ''Indeterminate''\<rparr>;
          sol = sol\<lparr>sol_x := Some (scaleArray (the (sol_x sol)) 0 NaN (d_n d))\<rparr>;
          sol = sol\<lparr>sol_y := Some (scaleArray (the (sol_y sol)) 0 NaN (d_m d))\<rparr>;
          sol = sol\<lparr>sol_s := Some (scaleArray (the (sol_s sol)) 0 NaN (d_m d))\<rparr>
      in (INDETERMINATE, sol, info))"

definition infeasible :: "Data \<Rightarrow> Sol \<Rightarrow> Info \<Rightarrow> int \<times> Sol \<times> Info" where
  "infeasible d sol info =
     (let info = info\<lparr>info_status := ''Infeasible''\<rparr>;
          sol = sol\<lparr>sol_x := Some (scaleArray (the (sol_x sol)) 0 NaN (d_n d))\<rparr>;
          sol = sol\<lparr>sol_s := Some (scaleArray (the (sol_s sol)) 0 NaN (d_m d))\<rparr>
      in (INFEASIBLE, sol, info))"

definition unbounded :: "Data \<Rightarrow> Sol \<Rightarrow> Info \<Rightarrow> int \<times> Sol \<times> Info" where
  "unbounded d sol info =
     (let info = info\<lparr>info_status := ''Unbounded''\<rparr>;
          sol = sol\<lparr>sol_y := Some (scaleArray (the (sol_y sol)) 0 NaN (d_m d))\<rparr>
      in (UNBOUNDED, sol, info))"

definition setSolution :: "'k ext \<Rightarrow> Data \<Rightarrow> Work \<Rightarrow> Sol \<Rightarrow> Info \<Rightarrow> Sol \<times> Info" where
  "setSolution E d w sol info =
     (let sol = setx E d w sol;
          sol = sety E d w sol;
          sol = sets E d w sol;
          (st, sol, info) =
            (if statusVal info = 0 \<or> statusVal info = SOLVED
             then
              (let tau = w_u w ! nat (w_l w - 1);
                   kap = ABS (w_v w ! nat (w_l w - 1))
               in if UNDET_TOL d < tau \<and> kap < tau then solved d sol info tau
                  else if calcNorm (w_u w) (w_l w) < UNDET_TOL d * fsqrt (of_idx (w_l w))
                  then indeterminate d sol info
                  else
                   (let bTy = innerProd (the (d_b d)) (the (sol_y sol)) (d_m d);
                        cTx = innerProd (the (d_c d)) (the (sol_x sol)) (d_n d)
                    in if bTy < cTx then infeasible d sol info else unbounded d sol info))
             else if statusVal info = INFEASIBLE then infeasible d sol info
             else unbounded d sol info)
      in (sol, info\<lparr>statusVal := st\<rparr>))"

text \<open>\<open>getInfo\<close> returns the workspace (scratch arrays), the solution and the info.\<close>

definition getInfo :: "'k ext \<Rightarrow> Data \<Rightarrow> Work \<Rightarrow> Sol \<Rightarrow> Info \<Rightarrow> Work \<times> Sol \<times> Info" where
  "getInfo E d w sol info =
     (let x = the (sol_x sol); y = the (sol_y sol); s = the (sol_s sol);
          (nmpr, nmAxs, w) = calcPrimalResid d w x s (Fin 1);
          (nmdr, nmATy, w) = calcDualResid d w y (Fin 1);
          cTx = innerProd x (the (d_c d)) (d_n d);
          bTy = innerProd y (the (d_b d)) (d_m d);
          cTx = (if NORMALIZE d \<noteq> 0 then cTx / (w_scale w * w_sc_c w * w_sc_b w) else cTx);
          bTy = (if NORMALIZE d \<noteq> 0 then bTy / (w_scale w * w_sc_c w * w_sc_b w) else bTy);
          info = info\<lparr>info_pobj := cTx, info_dobj := - bTy\<rparr>;
          (sol, info) =
            (if statusVal info = SOLVED
             then (sol, info\<lparr>info_relGap := ABS (cTx + bTy) / (Fin 1 + ABS cTx + ABS bTy),
                               info_resPri := nmpr / (Fin 1 + w_nm_b w),
                               info_resDual := nmdr / (Fin 1 + w_nm_c w)\<rparr>)
             else if statusVal info = UNBOUNDED
             then (sol\<lparr>sol_x := Some (scaleArray x 0 (Fin (- 1) / cTx) (d_n d)),
                        sol_s := Some (scaleArray s 0 (Fin (- 1) / cTx) (d_m d))\<rparr>,
                   info\<lparr>info_dobj := NaN, info_relGap := NaN,
                         info_resPri := w_nm_c w * nmAxs / (- cTx), info_resDual := NaN,
                         info_pobj := Fin (- 1)\<rparr>)
             else (sol\<lparr>sol_y := Some (scaleArray y 0 (Fin (- 1) / bTy) (d_m d))\<rparr>,
                   info\<lparr>info_pobj := NaN, info_relGap := NaN, info_resPri := NaN,
                         info_resDual := w_nm_b w * nmATy / (- bTy), info_dobj := Fin (- 1)\<rparr>))
      in (w, sol, info\<lparr>info_time := tocq E\<rparr>))"

section \<open>Printing\<close>

definition HEADER :: "string list" where
  "HEADER = ['' Iter '', '' pri res '', '' dua res '', '' rel gap '', '' pri obj '',
             '' dua obj '', ''  kappa  '', '' time (s)'']"

definition HEADER_LEN :: int where "HEADER_LEN = 8"

definition strlen :: "string \<Rightarrow> int" where
  "strlen s = int (length s)"

definition printSummary :: "'k ext \<Rightarrow> int \<Rightarrow> residuals \<Rightarrow> out" where
  "printSummary E i r =
     [(''%*i|'', [PI (strlen (HEADER ! 0)), PI i]),
      ('' %*.2e '', [PI (strlen (HEADER ! 1) - 1), PF (r_resPri r)]),
      ('' %*.2e '', [PI (strlen (HEADER ! 2) - 1), PF (r_resDual r)]),
      ('' %*.2e '', [PI (strlen (HEADER ! 3) - 1), PF (r_relGap r)]),
      (if r_cTx r < Fin 0 then (''%*.2e '', [PI (strlen (HEADER ! 4) - 1), PF (r_cTx r)])
       else ('' %*.2e '', [PI (strlen (HEADER ! 4) - 1), PF (r_cTx r)])),
      (if Fin 0 \<le> r_bTy r then (''%*.2e '', [PI (strlen (HEADER ! 5) - 1), PF (- r_bTy r)])
       else ('' %*.2e '', [PI (strlen (HEADER ! 5) - 1), PF (- r_bTy r)])),
      ('' %*.2e '', [PI (strlen (HEADER ! 6) - 1), PF (r_kap r)]),
      ('' %*.2e '', [PI (strlen (HEADER ! 7) - 1), PF (tocq E / Fin 1000)]),
      (''\<newline>'', [])]"

text \<open>The loop \<open>for (i = 0; i < _lineLen_; ++i) scs_printf(c)\<close>.\<close>

definition print_line :: "string \<Rightarrow> int \<Rightarrow> out" where
  "print_line c lineLen = replicate (nat lineLen) (c, [])"

text \<open>
  \<open>printHeader\<close> sets the static variable \<open>_lineLen_\<close>, which \<open>printFooter\<close> reads; the
  model returns it with the output and passes it on.
\<close>

definition printHeader :: "'k ext \<Rightarrow> Data \<Rightarrow> Work \<Rightarrow> 'k \<Rightarrow> int \<times> out" where
  "printHeader E d w k =
     (let coneStr = getConeHeader E k;
          lineLen = fold (\<lambda>i len. len + (strlen (HEADER ! i) + 1)) [0..<nat HEADER_LEN] (- 1)
      in (lineLen,
          print_line ''-'' lineLen
          @ [(''\<newline>\<newline>'' @ [CHR 0x09] @ ''scs v1.0 - Splitting Conic Solver\<newline>'' @ [CHR 0x09]
               @ ''(c) Brendan O'' @ [CHR 0x27] @ ''Donoghue, Stanford University, 2014\<newline>\<newline>'', [])]
          @ print_line ''-'' lineLen
          @ [(''\<newline>method: %s\<newline>'', [PS (case w_method w of None \<Rightarrow> [] | Some s \<Rightarrow> s)]),
             (''EPS = %.2e, ALPHA = %.2f, MAX_ITERS = %i, NORMALIZE = %i\<newline>'',
              [PF (EPS d), PF (ALPHA d), PI (MAX_ITERS d), PI (NORMALIZE d)]),
             (''variables n = %i, constraints m = %i, non-zeros in A = %li\<newline>'',
              [PI (d_n d), PI (d_m d), PI (the (d_Ap d) ! nat (d_n d))])]
          @ (if WARM_START d \<noteq> 0 then [(''using variable warm-starting!\<newline>'', [])] else [])
          @ [(''%s'', [PS coneStr])]
          @ print_line ''-'' lineLen
          @ [(''\<newline>'', [])]
          @ map (\<lambda>i. (''%s|'', [PS (HEADER ! i)])) [0..<nat (HEADER_LEN - 1)]
          @ [(''%s\<newline>'', [PS (HEADER ! nat (HEADER_LEN - 1))])]
          @ print_line ''='' lineLen
          @ [(''\<newline>'', [])]))"

definition printFooter :: "'k ext \<Rightarrow> Data \<Rightarrow> Info \<Rightarrow> int \<Rightarrow> out" where
  "printFooter E d info lineLen =
     (let linSysStr = getLinSysSummary E info
      in print_line ''-'' lineLen
         @ [(''\<newline>Status: %s\<newline>'', [PS (info_status info)])]
         @ (if info_iter info = MAX_ITERS d
            then [(''Hit MAX_ITERS, solution may be inaccurate\<newline>'', [])] else [])
         @ [(''Time taken: %.4f seconds\<newline>'', [PF (info_time info / Fin 1000)])]
         @ (case linSysStr of None \<Rightarrow> [] | Some s \<Rightarrow> [(''%s'', [PS s])])
         @ print_line ''-'' lineLen
         @ [(''\<newline>'', [])]
         @ (if statusVal info = INFEASIBLE
            then [(''Certificate of primal infeasibility:\<newline>'', []),
                  (''|A'' @ [CHR 0x27] @ ''y|_2 * |b|_2 = %.4e\<newline>'', [PF (info_resDual info)]),
                  (''dist(y, K*) = 0\<newline>'', []),
                  (''b'' @ [CHR 0x27] @ ''y = %.4f\<newline>'', [PF (info_dobj info)])]
            else if statusVal info = UNBOUNDED
            then [(''Certificate of dual infeasibility:\<newline>'', []),
                  (''|Ax + s|_2 * |c|_2 = %.4e\<newline>'', [PF (info_resPri info)]),
                  (''dist(s, K) = 0\<newline>'', []),
                  (''c'' @ [CHR 0x27] @ ''x = %.4f\<newline>'', [PF (info_pobj info)])]
            else [(''Error metrics:\<newline>'', []),
                  (''|Ax + s - b|_2 / (1 + |b|_2) = %.4e\<newline>'', [PF (info_resPri info)]),
                  (''|A'' @ [CHR 0x27] @ ''y + c|_2 / (1 + |c|_2) = %.4e\<newline>'',
                   [PF (info_resDual info)]),
                  (''|c'' @ [CHR 0x27] @ ''x + b'' @ [CHR 0x27] @ ''y| / (1 + |c'' @ [CHR 0x27]
                     @ ''x| + |b'' @ [CHR 0x27] @ ''y|) = %.4e\<newline>'', [PF (info_relGap info)]),
                  (''dist(s, K) = 0, dist(y, K*) = 0, s'' @ [CHR 0x27] @ ''y = 0\<newline>'', [])]
                 @ print_line ''-'' lineLen
                 @ [(''\<newline>'', []),
                    (''c'' @ [CHR 0x27] @ ''x = %.4f, -b'' @ [CHR 0x27] @ ''y = %.4f\<newline>'',
                     [PF (info_pobj info), PF (info_dobj info)])])
         @ print_line ''='' lineLen
         @ [(''\<newline>'', [])])"

section \<open>The solve loop and the entry point\<close>

text \<open>
  The body of the loop of \<open>scs_solve\<close> up to the convergence test, at the iteration index
  \<open>i\<close>: it returns \<open>(statusVal, w, r)\<close>.
\<close>

definition scs_iteration ::
  "'k ext \<Rightarrow> Data \<Rightarrow> 'k \<Rightarrow> Work \<Rightarrow> residuals \<Rightarrow> int \<Rightarrow> int \<times> Work \<times> residuals" where
  "scs_iteration E d k w r i =
     (let w = w\<lparr>w_u_prev := memcpy (w_u_prev w) 0 (w_u w) (w_l w)\<rparr>;
          w = projectLinSys E d w i;
          w = projectCones E d w k i;
          w = updateDualVars d w
      in converged d w r i)"

text \<open>
  The \<open>for\<close> loop from the index \<open>i\<close> on. It returns the index at which it stops
  (\<open>MAX_ITERS\<close>, or the index of the iteration that left by \<open>break\<close>) with the status, the
  workspace, the residuals and the output.
\<close>

function scs_loop ::
  "'k ext \<Rightarrow> Data \<Rightarrow> 'k \<Rightarrow> int \<Rightarrow> int \<Rightarrow> Work \<Rightarrow> residuals \<Rightarrow> out
     \<Rightarrow> int \<times> int \<times> Work \<times> residuals \<times> out" where
  "scs_loop E d k i st w r out =
     (if i < MAX_ITERS d
      then
       (let (st, w, r) = scs_iteration E d k w r i
        in if st \<noteq> 0 then (i, st, w, r, out)
           else scs_loop E d k (i + 1) st w r
                  (if i mod PRINT_INTERVAL = 0 \<and> VERBOSE d \<noteq> 0
                   then out @ printSummary E i r else out))
      else (i, st, w, r, out))"
  by pat_completeness auto
termination
  by (relation "measure (\<lambda>(E, d, k, i, st, w, r, out). nat (MAX_ITERS d - i))") auto

declare scs_loop.simps [simp del]

text \<open>
  \<open>scs_solve\<close>. The local \<open>struct residuals r\<close> is not initialized in C; its initial
  contents are the argument \<open>r0\<close>. The result is the returned status with the workspace,
  the data, the solution, the info and the output.
\<close>

definition scs_solve ::
  "'k ext \<Rightarrow> Work \<Rightarrow> Data \<Rightarrow> 'k \<Rightarrow> Sol \<Rightarrow> Info \<Rightarrow> residuals
     \<Rightarrow> int \<times> Work \<times> Data \<times> Sol \<times> Info \<times> out" where
  "scs_solve E w d k sol info r0 =
     (let info = info\<lparr>statusVal := 0\<rparr>;
          (d, w) = updateWork E d w sol;
          (lineLen, out) = (if VERBOSE d \<noteq> 0 then printHeader E d w k else (0, []));
          (i, st, w, r, out) = scs_loop E d k 0 (statusVal info) w r0 out;
          info = info\<lparr>statusVal := st\<rparr>;
          out = (if VERBOSE d \<noteq> 0 then out @ printSummary E i r else out);
          (sol, info) = setSolution E d w sol info;
          info = info\<lparr>info_iter := i\<rparr>;
          (w, sol, info) = getInfo E d w sol info;
          out = (if VERBOSE d \<noteq> 0 then out @ printFooter E d info lineLen else out);
          (d, sol) = (if NORMALIZE d \<noteq> 0 then unNormalizeSolBC E d w sol else (d, sol))
      in (statusVal info, w, d, sol, info, out))"

text \<open>The entry point \<open>scs\<close>: the returned status with the data, the solution, the info and the output.\<close>

definition scs ::
  "'k ext \<Rightarrow> Data \<Rightarrow> 'k option \<Rightarrow> Sol \<Rightarrow> Info \<Rightarrow> residuals \<Rightarrow> int \<times> Data \<times> Sol \<times> Info \<times> out" where
  "scs E d k sol info r0 =
     (let (w, d, sol, info, o1) = scs_init E d k sol info
      in case w of
           None \<Rightarrow> (FAILURE, d, sol, info, o1)
         | Some w \<Rightarrow>
            (let (st, w, d, sol, info, o2) = scs_solve E w d (the k) sol info r0;
                 d = scs_finish E d w
             in (statusVal info, d, sol, info, o1 @ o2)))"

section \<open>Rounding to binary64\<close>








section \<open>Specification-level definitions\<close>

text \<open>
  The rejection conditions of the validator in the words of the spec, in the order in which
  \<open>validate\<close> tests them, and the message of each. \<open>first_reason\<close> is the message of the
  first condition that holds.
\<close>

definition validate_messages :: "string list" where
  "validate_messages =
     [''data incompletely specified\<newline>'',
      ''m and n must both be greater than 0\<newline>'',
      ''m must be greater than or equal to n\<newline>'',
      ''Ap not strictly increasing\<newline>'',
      ''Anz (nonzeros in A) = %i, outside of valid range\<newline>'',
      ''number of rows in A inconsistent with input dimension\<newline>'',
      ''invalid cone dimensions\<newline>'',
      ''cone dimensions %i not equal to num rows in A = m = %i\<newline>'',
      ''MAX_ITERS must be positive\<newline>'',
      ''EPS tolerance must be positive\<newline>'',
      ''ALPHA must be in (0,2)\<newline>'',
      ''RHO_X must be positive (1e-3 works well).\<newline>'']"

definition reject_conds :: "'k ext \<Rightarrow> Data \<Rightarrow> 'k \<Rightarrow> bool list" where
  "reject_conds E d k =
     [d_Ax d = None \<or> d_Ai d = None \<or> d_Ap d = None \<or> d_b d = None \<or> d_c d = None,
      d_m d \<le> 0 \<or> d_n d \<le> 0,
      d_m d < d_n d,
      \<not> (\<forall>i<nat (d_n d). the (d_Ap d) ! i < the (d_Ap d) ! (i + 1)),
      the (d_Ap d) ! nat (d_n d) \<le> 0
        \<or> real_of_int (d_n d) < real_of_int (the (d_Ap d) ! nat (d_n d)) / real_of_int (d_m d),
      \<exists>i<nat (the (d_Ap d) ! nat (d_n d)). d_m d - 1 < the (d_Ai d) ! i,
      validateCones E k < 0,
      getFullConeDims E k \<noteq> d_m d,
      MAX_ITERS d < 0,
      EPS d < Fin 0,
      ALPHA d \<le> Fin 0 \<or> Fin 2 \<le> ALPHA d,
      RHO_X d < Fin 0]"

definition validate_args :: "'k ext \<Rightarrow> Data \<Rightarrow> 'k \<Rightarrow> parg list list" where
  "validate_args E d k =
     [[], [], [], [], [PI (the (d_Ap d) ! nat (d_n d))], [], [],
      [PI (getFullConeDims E k), PI (d_m d)], [], [], [], []]"

definition first_reason :: "'k ext \<Rightarrow> Data \<Rightarrow> 'k \<Rightarrow> string option" where
  "first_reason E d k = map_option snd (List.find fst (zip (reject_conds E d k) validate_messages))"

text \<open>A chain of tests: the result of the first test that holds, \<open>z\<close> when none does.\<close>

fun chain :: "(bool \<times> 'a) list \<Rightarrow> 'a \<Rightarrow> 'a" where
  "chain [] z = z"
| "chain ((c, x) # cs) z = (if c then x else chain cs z)"

text \<open>The solution and the info of the failure return.\<close>

definition failure_info :: "Info \<Rightarrow> Info" where
  "failure_info info =
     info\<lparr>info_iter := - 1, info_status := ''Failure'', statusVal := - 4, info_pobj := NaN,
          info_dobj := NaN, info_resPri := NaN, info_resDual := NaN, info_relGap := NaN,
          info_time := NaN\<rparr>"

definition nan_sol :: "Data \<Rightarrow> Sol" where
  "nan_sol d = \<lparr>sol_x = Some (replicate (nat (d_n d)) NaN),
               sol_y = Some (replicate (nat (d_m d)) NaN),
               sol_s = Some (replicate (nat (d_m d)) NaN)\<rparr>"

text \<open>The info of a result of \<open>scs\<close>.\<close>

definition info_of :: "int \<times> Data \<times> Sol \<times> Info \<times> out \<Rightarrow> Info" where
  "info_of res = fst (snd (snd (snd res)))"

text \<open>
  The workspace as \<open>initWork\<close> allocates it: \<open>l = n + m + 1\<close>, the four iterates have
  \<open>l\<close> entries and \<open>h\<close>, \<open>g\<close> have \<open>l - 1\<close>. A solution array that the caller passes in
  holds at least \<open>n\<close> (or \<open>m\<close>) entries.
\<close>

definition work_ok :: "Data \<Rightarrow> Work \<Rightarrow> bool" where
  "work_ok d w \<longleftrightarrow>
     0 \<le> d_n d \<and> 0 \<le> d_m d \<and> w_l w = d_n d + d_m d + 1 \<and>
     length (w_u w) = nat (w_l w) \<and> length (w_v w) = nat (w_l w) \<and>
     length (w_u_t w) = nat (w_l w) \<and> length (w_u_prev w) = nat (w_l w) \<and>
     length (w_h w) = nat (w_l w - 1) \<and> length (w_g w) = nat (w_l w - 1)"



text \<open>
  The linear-system projection in the seven steps of section 4.4 of the spec, entry by
  entry on an array \<open>u_t\<close> of \<open>l\<close> entries.
\<close>

definition projectLinSys_spec :: "'k ext \<Rightarrow> Data \<Rightarrow> Work \<Rightarrow> int \<Rightarrow> Work" where
  "projectLinSys_spec E d w iter =
     (let n = nat (d_n d); m = nat (d_m d); l = nat (w_l w);
          ut1 = map (\<lambda>i. w_u w ! i + w_v w ! i) [0..<l];
          ut2 = map (\<lambda>i. if i < n then ut1 ! i * RHO_X d else ut1 ! i) [0..<l];
          ut3 = map (\<lambda>i. if i < l - 1 then ut2 ! i - w_h w ! i * ut2 ! (l - 1) else ut2 ! i) [0..<l];
          ut4 = map (\<lambda>i. if i < l - 1
                         then ut3 ! i - w_h w ! i * (innerProd ut3 (w_g w) (w_l w - 1) / (w_gTh w + Fin 1))
                         else ut3 ! i) [0..<l];
          ut5 = map (\<lambda>i. if n \<le> i \<and> i < n + m then - ut4 ! i else ut4 ! i) [0..<l];
          z = solveLinSys E d (w\<lparr>w_u_t := ut5\<rparr>) (take (l - 1) ut5) (Some (w_u w)) iter;
          ut6 = map (\<lambda>i. if i < l - 1 then z ! i else ut5 ! i) [0..<l];
          ut7 = ut6[l - 1 := ut6 ! (l - 1) + innerProd ut6 (w_h w) (w_l w - 1)]
      in w\<lparr>w_u_t := ut7\<rparr>)"

text \<open>
  The cone-projection phase in the words of section 4.5 of the spec: the \<open>x\<close> block
  without relaxation, the \<open>y\<close> and \<open>\<tau>\<close> entries with relaxation, the projection of the
  \<open>y\<close> block by the cone module, and the clamp of the last entry to \<open>max (u[l-1]) 0\<close>.
\<close>

definition projectCones_spec :: "'k ext \<Rightarrow> Data \<Rightarrow> Work \<Rightarrow> 'k \<Rightarrow> int \<Rightarrow> Work" where
  "projectCones_spec E d w k iter =
     (let n = nat (d_n d); m = nat (d_m d); l = nat (w_l w);
          u1 = map (\<lambda>i. if i < n then w_u_t w ! i - w_v w ! i
                         else ALPHA d * w_u_t w ! i + (Fin 1 - ALPHA d) * w_u_prev w ! i - w_v w ! i)
                 [0..<l];
          y = projCone E (take m (drop n u1)) k iter;
          u2 = map (\<lambda>i. if n \<le> i \<and> i < n + m then y ! (i - n) else u1 ! i) [0..<l];
          u3 = u2[l - 1 := max (u2 ! (l - 1)) (Fin 0)]
      in w\<lparr>w_u := u3\<rparr>)"

text \<open>
  The state after \<open>j\<close> passes through the body of the loop of \<open>scs_solve\<close> (the status, the
  workspace and the residuals), whether or not a pass would leave the loop: the loop
  itself stops at one of these states.
\<close>

fun iterates :: "'k ext \<Rightarrow> Data \<Rightarrow> 'k \<Rightarrow> Work \<Rightarrow> residuals \<Rightarrow> nat \<Rightarrow> int \<times> Work \<times> residuals" where
  "iterates E d k w r 0 = (0, w, r)"
| "iterates E d k w r (Suc j) =
     (let (st, w', r') = iterates E d k w r j in scs_iteration E d k w' r' (int j))"

text \<open>The first \<open>n\<close> entries of the dual iterate \<open>v\<close> are zero.\<close>

definition x_block_zero :: "Data \<Rightarrow> Work \<Rightarrow> bool" where
  "x_block_zero d w \<longleftrightarrow> take (nat (d_n d)) (w_v w) = replicate (nat (d_n d)) (Fin 0)"

text \<open>
  What the invariants need from the normalizer of \<open>b\<close> and \<open>c\<close>: it keeps the dimensions, the
  lengths of the arrays of the workspace and the warm-start switch.
\<close>

definition normalizeBC_ok :: "'k ext \<Rightarrow> bool" where
  "normalizeBC_ok E \<longleftrightarrow>
     (\<forall>d w. work_ok d w \<longrightarrow>
        work_ok (fst (normalizeBC E d w)) (snd (normalizeBC E d w)) \<and>
        WARM_START (fst (normalizeBC E d w)) = WARM_START d)"

fun is_fin :: "pfloat \<Rightarrow> bool" where
  "is_fin (Fin x) = True"
| "is_fin _ = False"

text \<open>The workspace in which an iteration runs its cone phase: after \<open>u_prev = u\<close> and \<open>projectLinSys\<close>.\<close>

definition before_cones :: "'k ext \<Rightarrow> Data \<Rightarrow> Work \<Rightarrow> int \<Rightarrow> Work" where
  "before_cones E d w i =
     projectLinSys E d (w\<lparr>w_u_prev := memcpy (w_u_prev w) 0 (w_u w) (w_l w)\<rparr>) i"

section \<open>Concrete inputs\<close>

text \<open>
  The problem \<open>minimize x subject to x + s = 1, s = 0\<close> (\<open>n = m = 1\<close>, \<open>A = [1]\<close>,
  \<open>b = [1]\<close>, \<open>c = [1]\<close>) with the default parameters, not normalized, and the workspace
  at its solution \<open>x = 1\<close>, \<open>y = - 1\<close>, \<open>\<tau> = 1\<close>, \<open>\<kappa> = 0\<close> (\<open>g\<close> solves the linear system for
  \<open>h = [c; b]\<close>, with its last entry negated, and \<open>gTh = <h, g>\<close>).
\<close>

definition ex_d :: Data where
  "ex_d = \<lparr>d_m = 1, d_n = 1, d_Ax = Some [Fin 1], d_Ai = Some [0], d_Ap = Some [0, 1],
           d_b = Some [Fin 1], d_c = Some [Fin 1], MAX_ITERS = 2500, EPS = Fin (1 / 1000),
           ALPHA = Fin (3 / 2), UNDET_TOL = Fin (1 / 1000000000), RHO_X = Fin (1 / 1000),
           VERBOSE = 0, NORMALIZE = 0, WARM_START = 0\<rparr>"

definition ex_w :: Work where
  "ex_w = \<lparr>w_u = [Fin 1, Fin (- 1), Fin 1], w_v = [Fin 0, Fin 0, Fin 0],
           w_u_t = [Fin 1, Fin (- 1), Fin 1], w_u_prev = [Fin 1, Fin (- 1), Fin 1],
           w_h = [Fin 1, Fin 1], w_g = [Fin (2000 / 1001), Fin (- 999 / 1001)], w_pr = [Fin 0],
           w_dr = [Fin 0], w_gTh = Fin 1, w_sc_b = Fin 1, w_sc_c = Fin 1, w_scale = Fin 1,
           w_nm_b = Fin 1, w_nm_c = Fin 1, w_meanNormRowA = Fin 0, w_D = None, w_E = None,
           w_l = 3, w_method = None\<rparr>"

definition ex_r :: residuals where
  "ex_r = \<lparr>r_resPri = Fin 0, r_resDual = Fin 0, r_relGap = Fin 0, r_cTx = Fin 0, r_bTy = Fin 0,
           r_tau = Fin 0, r_kap = Fin 0\<rparr>"

text \<open>
  Collaborators for this problem: a subsolver that solves the two equations
  \<open>RHO_X x + a y = b\<^sub>0\<close>, \<open>a x - y = b\<^sub>1\<close> exactly (\<open>a\<close> is the one entry of \<open>A\<close>), and the
  cone module of the zero cone \<open>K = {0}\<close>, whose dual is the whole line, so that the
  projection of \<open>y\<close> is the identity. The normalizer is not used (\<open>NORMALIZE = 0\<close>).
\<close>

definition ex_solveLinSys ::
  "Data \<Rightarrow> Work \<Rightarrow> pfloat list \<Rightarrow> pfloat list option \<Rightarrow> int \<Rightarrow> pfloat list" where
  "ex_solveLinSys d w b s iter =
     (let a = the (d_Ax d) ! 0;
          x = (b ! 0 + a * b ! 1) / (RHO_X d + a * a)
      in [x, a * x - b ! 1])"

definition ex_E :: "unit ext" where
  "ex_E = \<lparr>solveLinSys = ex_solveLinSys, projCone = (\<lambda>y k iter. y), validateCones = (\<lambda>k. 0),
           getFullConeDims = (\<lambda>k. 1), initCone = (\<lambda>k. 0),
           privateInitWork = (\<lambda>d w. (0, w\<lparr>w_method := Some ''direct''\<rparr>)),
           getConeHeader = (\<lambda>k. ''zero cone\<newline>''), getLinSysSummary = (\<lambda>info. None),
           normalizeA = (\<lambda>d w k. (d, w)), normalizeBC = (\<lambda>d w. (d, w)),
           normalizeWarmStart = (\<lambda>d w. w), unNormalizeSolBC = (\<lambda>d w sol. (d, sol)),
           unNormalizeA = (\<lambda>d w. d), tocq = Fin 0, malloc_junk = Fin 0, malloc_Work = ex_w\<rparr>"

definition ex_sol :: Sol where
  "ex_sol = \<lparr>sol_x = None, sol_y = None, sol_s = None\<rparr>"

definition ex_info :: Info where
  "ex_info = \<lparr>info_iter = 0, info_status = [], statusVal = 0, info_pobj = Fin 0,
              info_dobj = Fin 0, info_resPri = Fin 0, info_resDual = Fin 0, info_relGap = Fin 0,
              info_time = Fin 0\<rparr>"

text \<open>
  A workspace for the same problem with \<open>A = [0]\<close>, in which the \<open>y\<close> entry of \<open>u_prev\<close> is
  \<open>NaN\<close>: \<open>cTx = - 1\<close>, \<open>bTy = - 1\<close>, and the fast primal residual is \<open>NaN\<close>.
\<close>

definition cx6_d :: Data where
  "cx6_d = ex_d\<lparr>d_Ax := Some [Fin 0]\<rparr>"

definition cx6_w :: Work where
  "cx6_w = ex_w\<lparr>w_u := [Fin (- 1), Fin (- 1), Fin 1], w_u_prev := [Fin 1, NaN, Fin 1]\<rparr>"




text \<open>The same problem with the relaxation parameter \<open>ALPHA = NaN\<close>.\<close>

definition cx5_d :: Data where
  "cx5_d = ex_d\<lparr>ALPHA := NaN\<rparr>"

(*DEFS_END*)
section \<open>Facts about the arithmetic\<close>

lemmas pfloat_ops = plus_pfloat_def uminus_pfloat_def minus_pfloat_def times_pfloat_def
  divide_pfloat_def less_pfloat_def less_eq_pfloat_def

lemma not_less_NaN [simp]: "\<not> NaN < x" "\<not> x < NaN"
  by (cases x; simp add: pfloat_ops)+

lemma ABS_not_neg: "\<not> ABS x < Fin 0"
  by (cases x) (auto simp: ABS_def pfloat_ops)



section \<open>The convergence test\<close>

lemmas kernel_defs = upd_range_def memcpy_def memset0_def scaleArray_def addScaledArray_def
  innerProd_def calcNorm_def accumByAtrans_def accumByA_def

lemma fastCalcPrimalResid_work:
  "snd (snd (fastCalcPrimalResid d w)) = w\<lparr>w_pr := fast_pr d w\<rparr>"
  by (simp add: fastCalcPrimalResid_def Let_def split_beta)

lemma calcDualResid_work:
  "snd (snd (calcDualResid d w y tau)) =
     w\<lparr>w_dr := accumByAtrans d y (memset0 (w_dr w) (d_n d))\<rparr>"
  by (simp add: calcDualResid_def Let_def split_beta)

text \<open>
  The status of \<open>exactConverged\<close>, with the two residual ratios written as the code
  computes them (\<open>nmpr / (1 + nm_b) / tau\<close>).
\<close>

lemma exactConverged_status:
  "fst (exactConverged d w r) =
     (if ec_cTx d w < Fin 0 \<and> unbounded_ratio d w < EPS d then UNBOUNDED
      else if ec_bTy d w < Fin 0 \<and> infeasible_ratio d w < EPS d then INFEASIBLE
      else if ec_kap d w < ec_tau w \<and>
              MAX_pfloat (MAX_pfloat (ec_nmpr d w / (Fin 1 + w_nm_b w) / ec_tau w)
                                     (ec_nmdr d w / (Fin 1 + w_nm_c w) / ec_tau w))
                         (rel_gap d w) < EPS d
           then SOLVED
      else 0)"
  unfolding exactConverged_def ec_cTx_def ec_bTy_def ec_kap_def ec_tau_def ec_nmpr_def ec_nmdr_def
    ec_nmAxs_def ec_nmATy_def unbounded_ratio_def infeasible_ratio_def rel_gap_def
  by (simp add: Let_def split_beta fastCalcPrimalResid_work calcDualResid_work)

text \<open>The quantities of the test at the example workspace.\<close>

lemma ex_fast_pr: "fast_pr ex_d ex_w = [Fin 1]"
  by (simp add: fast_pr_def ex_d_def ex_w_def kernel_defs pfloat_ops Let_def)

lemma ex_fastCalc: "fastCalcPrimalResid ex_d ex_w = (Fin 0, Fin 1, ex_w\<lparr>w_pr := [Fin 1]\<rparr>)"
  by (simp add: fastCalcPrimalResid_def primalResidLoop_def ex_fast_pr Let_def)
     (simp add: ex_d_def ex_w_def pfloat_ops ABS_def)

lemma ex_calcDual:
  "calcDualResid ex_d (ex_w\<lparr>w_pr := [Fin 1]\<rparr>) (drop (nat (d_n ex_d)) (w_u ex_w)) (Fin 1) =
     (Fin 0, Fin 1, ex_w\<lparr>w_pr := [Fin 1], w_dr := [Fin (- 1)]\<rparr>)"
  by (simp add: calcDualResid_def Let_def ex_d_def ex_w_def kernel_defs pfloat_ops)

lemma ex_quantities:
  "ec_tau ex_w = Fin 1" "ec_kap ex_d ex_w = Fin 0" "ec_cTx ex_d ex_w = Fin 1"
  "ec_bTy ex_d ex_w = Fin (- 1)" "ec_nmpr ex_d ex_w = Fin 0" "ec_nmAxs ex_d ex_w = Fin 1"
  "ec_nmdr ex_d ex_w = Fin 0" "ec_nmATy ex_d ex_w = Fin 1"
proof -
  show t: "ec_tau ex_w = Fin 1"
    by (simp add: ec_tau_def ex_w_def ABS_def pfloat_ops)
  show "ec_kap ex_d ex_w = Fin 0"
    by (simp add: ec_kap_def ex_d_def ex_w_def ABS_def pfloat_ops)
  show "ec_cTx ex_d ex_w = Fin 1"
    by (simp add: ec_cTx_def ex_d_def ex_w_def kernel_defs pfloat_ops)
  show "ec_bTy ex_d ex_w = Fin (- 1)"
    by (simp add: ec_bTy_def ex_d_def ex_w_def kernel_defs pfloat_ops)
  show "ec_nmpr ex_d ex_w = Fin 0" "ec_nmAxs ex_d ex_w = Fin 1"
    by (simp_all add: ec_nmpr_def ec_nmAxs_def ex_fastCalc)
  show "ec_nmdr ex_d ex_w = Fin 0" "ec_nmATy ex_d ex_w = Fin 1"
    by (simp_all add: ec_nmdr_def ec_nmATy_def ex_fastCalc t ex_calcDual)
qed








section \<open>Validation\<close>

lemma fold_max_less:
  fixes f :: "nat \<Rightarrow> int"
  shows "c < fold (\<lambda>i r. if r < f i then f i else r) [0..<N] r0 \<longleftrightarrow> c < r0 \<or> (\<exists>i<N. c < f i)"
proof (induction N)
  case 0
  show ?case by simp
next
  case (Suc N)
  show ?case
    using Suc.IH by (auto simp: less_Suc_eq)
qed

lemma list_ex_upt: "list_ex P [0..<N] \<longleftrightarrow> (\<exists>i<N. P i)"
  by (auto simp: list_ex_iff)

lemma of_idx_less_div:
  "0 < m \<Longrightarrow> of_idx n < of_idx a / of_idx m \<longleftrightarrow> real_of_int n < real_of_int a / real_of_int m"
  by (simp add: of_idx_def pfloat_ops)

text \<open>
  \<open>validate\<close> with its loops replaced by the quantified conditions: the loop over \<open>Ap\<close>
  finds a pair that is not increasing, and \<open>rMax\<close> exceeds \<open>m - 1\<close> exactly when some
  row index does (\<open>m\<close> is positive at that point).
\<close>

lemma validate_alt:
  "validate E d k =
     (if d_Ax d = None \<or> d_Ai d = None \<or> d_Ap d = None \<or> d_b d = None \<or> d_c d = None
      then (- 1, [(''data incompletely specified\<newline>'', [])])
      else if d_m d \<le> 0 \<or> d_n d \<le> 0
      then (- 1, [(''m and n must both be greater than 0\<newline>'', [])])
      else if d_m d < d_n d
      then (- 1, [(''m must be greater than or equal to n\<newline>'', [])])
      else if \<not> (\<forall>i<nat (d_n d). the (d_Ap d) ! i < the (d_Ap d) ! (i + 1))
      then (- 1, [(''Ap not strictly increasing\<newline>'', [])])
      else if the (d_Ap d) ! nat (d_n d) \<le> 0
        \<or> real_of_int (d_n d) < real_of_int (the (d_Ap d) ! nat (d_n d)) / real_of_int (d_m d)
      then (- 1, [(''Anz (nonzeros in A) = %i, outside of valid range\<newline>'',
                   [PI (the (d_Ap d) ! nat (d_n d))])])
      else if \<exists>i<nat (the (d_Ap d) ! nat (d_n d)). d_m d - 1 < the (d_Ai d) ! i
      then (- 1, [(''number of rows in A inconsistent with input dimension\<newline>'', [])])
      else if validateCones E k < 0
      then (- 1, [(''invalid cone dimensions\<newline>'', [])])
      else if getFullConeDims E k \<noteq> d_m d
      then (- 1, [(''cone dimensions %i not equal to num rows in A = m = %i\<newline>'',
                   [PI (getFullConeDims E k), PI (d_m d)])])
      else if MAX_ITERS d < 0
      then (- 1, [(''MAX_ITERS must be positive\<newline>'', [])])
      else if EPS d < Fin 0
      then (- 1, [(''EPS tolerance must be positive\<newline>'', [])])
      else if ALPHA d \<le> Fin 0 \<or> Fin 2 \<le> ALPHA d
      then (- 1, [(''ALPHA must be in (0,2)\<newline>'', [])])
      else if RHO_X d < Fin 0
      then (- 1, [(''RHO_X must be positive (1e-3 works well).\<newline>'', [])])
      else (0, []))"
proof -
  have ap: "list_ex (\<lambda>i. the (d_Ap d) ! (i + 1) \<le> the (d_Ap d) ! i) [0..<nat (d_n d)]
      \<longleftrightarrow> \<not> (\<forall>i<nat (d_n d). the (d_Ap d) ! i < the (d_Ap d) ! (i + 1))"
    by (auto simp: list_ex_upt not_less)
  have anz: "of_idx (d_n d) < of_idx a / of_idx (d_m d) \<or> a \<le> 0
      \<longleftrightarrow> a \<le> 0 \<or> real_of_int (d_n d) < real_of_int a / real_of_int (d_m d)"
    if "\<not> (d_m d \<le> 0 \<or> d_n d \<le> 0)" for a
    using that by (auto simp: of_idx_less_div)
  have ai: "d_m d - 1 < fold (\<lambda>i rMax. if rMax < the (d_Ai d) ! i then the (d_Ai d) ! i else rMax)
                          [0..<N] 0
      \<longleftrightarrow> (\<exists>i<N. d_m d - 1 < the (d_Ai d) ! i)"
    if "\<not> (d_m d \<le> 0 \<or> d_n d \<le> 0)" for N
    using that by (simp add: fold_max_less)
  show ?thesis
    unfolding validate_def Let_def ap
    by (simp add: anz ai cong: if_cong)
qed

lemma chain_find: "chain cs z = (case List.find fst cs of None \<Rightarrow> z | Some (c, x) \<Rightarrow> x)"
  by (induction cs z rule: chain.induct) auto

lemma find_zip_map:
  "length cs = length xs \<Longrightarrow>
   List.find fst (zip cs (map f xs)) = map_option (apsnd f) (List.find fst (zip cs xs))"
  by (induction cs xs rule: list_induct2) auto

lemma find_zip_None:
  "length cs = length xs \<Longrightarrow> List.find fst (zip cs xs) = None \<longleftrightarrow> \<not> (\<exists>c\<in>set cs. c)"
  by (induction cs xs rule: list_induct2) auto

lemma find_zip_zip:
  fixes cs :: "bool list"
  shows "length cs = length ms \<Longrightarrow> length ms = length as \<Longrightarrow>
    List.find fst (zip cs ms) = map_option (apsnd fst) (List.find fst (zip cs (zip ms as)))"
  by (induction cs ms as rule: list_induct3) auto

lemma validate_chain:
  "validate E d k =
     chain (zip (reject_conds E d k)
              (map (\<lambda>(msg, args). (- 1, [(msg, args)])) (zip validate_messages (validate_args E d k))))
       (0, [])"
  unfolding validate_alt
  by (simp only: reject_conds_def validate_messages_def validate_args_def list.map zip_Cons_Cons
      zip_Nil chain.simps prod.case)

lemma validate_lengths:
  "length (reject_conds E d k) = length validate_messages"
  "length validate_messages = length (validate_args E d k)"
  "length (reject_conds E d k) = length (zip validate_messages (validate_args E d k))"
  by (simp_all add: reject_conds_def validate_messages_def validate_args_def)

lemma validate_find:
  "validate E d k =
     (case List.find fst (zip (reject_conds E d k) (zip validate_messages (validate_args E d k))) of
        None \<Rightarrow> (0, [])
      | Some (c, msg, args) \<Rightarrow> (- 1, [(msg, args)]))"
  unfolding validate_chain chain_find find_zip_map [OF validate_lengths(3)]
  by (simp split: option.splits)

lemma validate_rejected: "fst (validate E d k) < 0 \<longleftrightarrow> (\<exists>c\<in>set (reject_conds E d k). c)"
  using find_zip_None [OF validate_lengths(3) [of E d k]]
  by (auto simp: validate_find split: option.splits)

lemma validate_reason:
  "map fst (snd (validate E d k)) = (case first_reason E d k of None \<Rightarrow> [] | Some msg \<Rightarrow> [msg])"
  using find_zip_zip [OF validate_lengths(1) [of E d k] validate_lengths(2) [of E d k]]
  by (simp add: validate_find first_reason_def split: option.splits)

lemma mult_NaN [simp]: "x * NaN = NaN" "NaN * x = NaN"
  by (cases x; simp add: pfloat_ops)+

lemma scaleArray_malloc_NaN: "scaleArray (scs_malloc E len) 0 NaN len = replicate (nat len) NaN"
  by (rule nth_equalityI) (simp_all add: scaleArray_def scs_malloc_def upd_range_def)

lemma failureDefaultReturn_eq:
  "failureDefaultReturn E d sol info = (nan_sol d, failure_info info, [(''FAILURE\<newline>'', [])])"
  by (simp add: failureDefaultReturn_def Let_def scaleArray_malloc_NaN nan_sol_def failure_info_def
      FAILURE_def)

lemma scs_validation_failure:
  assumes "fst (validate E d k) < 0"
  shows "scs E d (Some k) sol info r0 =
           (FAILURE, d, nan_sol d, failure_info info,
            snd (validate E d k) @ [(''FAILURE\<newline>'', [])])"
  using assms
  by (simp add: scs_def scs_init_def Let_def split_beta failureDefaultReturn_eq)

text \<open>
  What \<open>validate\<close> tests. It rejects the input (returns a negative value) exactly when one
  of twelve conditions holds: a component of the data is missing; \<open>m \<le> 0\<close> or \<open>n \<le> 0\<close>;
  \<open>m < n\<close>; \<open>Ap\<close> is not strictly increasing; \<open>Anz \<le> 0\<close> or \<open>Anz / m > n\<close>; a row index
  exceeds \<open>m - 1\<close>; the cone descriptor is invalid; the cone dimensions do not sum to \<open>m\<close>;
  \<open>MAX_ITERS < 0\<close>; \<open>EPS < 0\<close>; one of the comparisons \<open>ALPHA \<le> 0\<close>, \<open>ALPHA \<ge> 2\<close> holds;
  \<open>RHO_X < 0\<close>. The message it prints is that of the first condition that holds, and the
  twelve messages are distinct. On a rejection the entry point \<open>scs\<close> returns \<open>FAILURE\<close> at
  once: \<open>x\<close>, \<open>y\<close>, \<open>s\<close> are filled with \<open>NaN\<close>, the residuals, the gap and the objectives
  of the info are \<open>NaN\<close>, \<open>statusVal\<close> is \<open>- 4\<close> and the status string is \<open>Failure\<close>.
\<close>

lemma validate_comparisons:
  "(fst (validate E d k) < 0 \<longleftrightarrow> (\<exists>c\<in>set (reject_conds E d k). c))
   \<and> map fst (snd (validate E d k)) = (case first_reason E d k of None \<Rightarrow> [] | Some msg \<Rightarrow> [msg])
   \<and> distinct validate_messages
   \<and> (fst (validate E d k) < 0 \<longrightarrow>
        scs E d (Some k) sol info r0 =
          (FAILURE, d, nan_sol d, failure_info info,
           snd (validate E d k) @ [(''FAILURE\<newline>'', [])]))"
  using validate_rejected [of E d k] validate_reason [of E d k]
    scs_validation_failure [of E d k sol info r0]
  by (simp add: validate_messages_def)

section \<open>The returned status\<close>

lemma failureDefaultReturn_info:
  "fst (snd (failureDefaultReturn E d sol info)) = failure_info info"
  by (simp add: failureDefaultReturn_eq)

lemma scs_init_failure:
  assumes "fst (scs_init E d k sol info) = None"
  shows "statusVal (fst (snd (snd (snd (scs_init E d k sol info))))) = FAILURE"
  using assms
  by (auto simp: scs_init_def Let_def split_beta failureDefaultReturn_info failure_info_def
      FAILURE_def split: option.splits if_splits)

lemma status_functions:
  "fst (solved d sol info tau) = SOLVED" "fst (indeterminate d sol info) = INDETERMINATE"
  "fst (infeasible d sol info) = INFEASIBLE" "fst (unbounded d sol info) = UNBOUNDED"
  by (simp_all add: solved_def indeterminate_def infeasible_def unbounded_def Let_def)

lemma setSolution_statusVal:
  "statusVal (snd (setSolution E d w sol info)) \<in> {SOLVED, INDETERMINATE, INFEASIBLE, UNBOUNDED}"
  by (simp add: setSolution_def Let_def split_beta status_functions)

lemma getInfo_statusVal:
  "statusVal (snd (snd (getInfo E d w sol info))) = statusVal info"
  by (simp add: getInfo_def Let_def split_beta)

lemma scs_solve_statusVal:
  "statusVal (fst (snd (snd (snd (snd (scs_solve E w d k sol info r0))))))
     \<in> {SOLVED, INDETERMINATE, INFEASIBLE, UNBOUNDED}"
  by (simp add: scs_solve_def Let_def split_beta getInfo_statusVal
      setSolution_statusVal [simplified])

text \<open>
  C9. After \<open>scs\<close> returns, \<open>info.statusVal\<close> is one of \<open>- 4\<close>, \<open>- 3\<close>, \<open>- 2\<close>, \<open>- 1\<close>, \<open>1\<close>
  on every path (failure of the validation or of the initialization, iteration limit,
  convergence); it is the value that \<open>scs\<close> returns, and it is never 0.
\<close>

theorem scs_statusVal:
  "statusVal (info_of (scs E d k sol info r0))
     \<in> {FAILURE, INDETERMINATE, INFEASIBLE, UNBOUNDED, SOLVED}
   \<and> statusVal (info_of (scs E d k sol info r0)) \<in> {- 4, - 3, - 2, - 1, 1}
   \<and> statusVal (info_of (scs E d k sol info r0)) \<noteq> 0
   \<and> fst (scs E d k sol info r0) = statusVal (info_of (scs E d k sol info r0))"
proof (cases "fst (scs_init E d k sol info)")
  case None
  then show ?thesis
    using scs_init_failure [OF None]
    by (simp add: scs_def info_of_def Let_def split_beta FAILURE_def)
next
  case (Some w)
  then show ?thesis
    using scs_solve_statusVal [of E w "fst (snd (scs_init E d k sol info))" "the k"
        "fst (snd (snd (scs_init E d k sol info)))"
        "fst (snd (snd (snd (scs_init E d k sol info))))" r0]
    by (auto simp add: scs_def info_of_def Let_def split_beta FAILURE_def INDETERMINATE_def
        INFEASIBLE_def UNBOUNDED_def SOLVED_def)
qed

theorem scs_statusVal_witness:
  "statusVal (info_of (scs ex_E ex_d (Some ()) ex_sol ex_info ex_r)) \<in> {- 4, - 3, - 2, - 1, 1}
   \<and> statusVal (info_of (scs ex_E ex_d None ex_sol ex_info ex_r)) = - 4"
proof -
  have "statusVal (info_of (scs ex_E ex_d None ex_sol ex_info ex_r)) = - 4"
    by (simp add: scs_def scs_init_def info_of_def failureDefaultReturn_eq failure_info_def)
  then show ?thesis
    using scs_statusVal [of ex_E ex_d "Some ()" ex_sol ex_info ex_r] by simp
qed

section \<open>A parameter that is not a number\<close>

lemma scs_initialized:
  assumes "fst (scs_init E d k sol info) = Some w"
  shows "fst (scs E d k sol info r0) \<in> {SOLVED, INDETERMINATE, INFEASIBLE, UNBOUNDED}"
  using assms
    scs_solve_statusVal [of E w "fst (snd (scs_init E d k sol info))" "the k"
      "fst (snd (snd (scs_init E d k sol info)))"
      "fst (snd (snd (snd (scs_init E d k sol info))))" r0]
  by (simp add: scs_def Let_def split_beta)

text \<open>
  C5 at an \<open>ALPHA\<close> that is \<open>NaN\<close>. The claim has the validator reject every \<open>ALPHA\<close>
  outside the open interval \<open>(0, 2)\<close>, and the message of the test says that \<open>ALPHA\<close> must
  be in \<open>(0, 2)\<close>. A \<open>NaN\<close> is not in the interval, but both comparisons of the test are
  false for it: \<open>validate\<close> returns 0 without a message, and \<open>scs\<close> goes on to the solve
  and returns a status other than \<open>FAILURE\<close>.
\<close>

theorem validate_NaN_ALPHA:
  "\<not> (Fin 0 < ALPHA cx5_d \<and> ALPHA cx5_d < Fin 2) \<and>
   validate ex_E cx5_d () = (0, []) \<and>
   fst (scs ex_E cx5_d (Some ()) ex_sol ex_info ex_r) \<noteq> FAILURE"
proof -
  have a: "\<not> (Fin 0 < ALPHA cx5_d \<and> ALPHA cx5_d < Fin 2)"
    by (simp add: cx5_d_def)
  have v: "validate ex_E cx5_d () = (0, [])"
    by (simp add: validate_def cx5_d_def ex_d_def ex_E_def Let_def of_idx_def pfloat_ops)
  have "fst (scs_init ex_E cx5_d (Some ()) ex_sol ex_info)
          = fst (initWork ex_E cx5_d () ex_sol)"
    by (simp add: scs_init_def v split_beta Let_def split: option.splits)
  also have "\<dots> \<noteq> None"
    by (simp add: initWork_def Let_def split_beta ex_E_def cx5_d_def ex_d_def)
  finally obtain w where "fst (scs_init ex_E cx5_d (Some ()) ex_sol ex_info) = Some w"
    by blast
  from scs_initialized [OF this, of ex_r]
  have "fst (scs ex_E cx5_d (Some ()) ex_sol ex_info ex_r) \<noteq> FAILURE"
    by (auto simp: FAILURE_def SOLVED_def INDETERMINATE_def INFEASIBLE_def UNBOUNDED_def)
  with a v show ?thesis
    by simp
qed

section \<open>Arrays\<close>

lemma length_upd_range [simp]: "length (upd_range off len f a) = length a"
  by (simp add: upd_range_def)

lemma nth_upd_range:
  "i < length a \<Longrightarrow>
   upd_range off len f a ! i = (if off \<le> i \<and> i < off + len then f (i - off) else a ! i)"
  by (simp add: upd_range_def)

lemma length_kernels [simp]:
  "length (memcpy dst off src len) = length dst"
  "length (memset0 dst len) = length dst"
  "length (scaleArray a off sc len) = length a"
  "length (addScaledArray a off b len sc) = length a"
  by (simp_all add: memcpy_def memset0_def scaleArray_def addScaledArray_def)

lemma nth_memcpy:
  "i < length dst \<Longrightarrow>
   memcpy dst off src len ! i = (if off \<le> i \<and> i < off + nat len then src ! (i - off) else dst ! i)"
  by (simp add: memcpy_def nth_upd_range)

lemma nth_scaleArray:
  "i < length a \<Longrightarrow>
   scaleArray a off sc len ! i = (if off \<le> i \<and> i < off + nat len then a ! i * sc else a ! i)"
  by (simp add: scaleArray_def nth_upd_range)

lemma nth_addScaledArray:
  "i < length a \<Longrightarrow>
   addScaledArray a off b len sc ! i =
     (if off \<le> i \<and> i < off + nat len then a ! i + sc * b ! (i - off) else a ! i)"
  by (simp add: addScaledArray_def nth_upd_range)



lemma div_NaN [simp]: "x / NaN = NaN" "NaN / x = NaN"
  by (cases x; simp add: pfloat_ops)+





lemma work_okD:
  assumes "work_ok d w"
  shows "nat (w_l w) = nat (d_n d) + nat (d_m d) + 1"
    and "nat (w_l w - 1) = nat (d_n d) + nat (d_m d)"
    and "nat (w_l w - d_n d) = nat (d_m d) + 1"
    and "length (w_u w) = nat (d_n d) + nat (d_m d) + 1"
    and "length (w_v w) = nat (d_n d) + nat (d_m d) + 1"
    and "length (w_u_t w) = nat (d_n d) + nat (d_m d) + 1"
    and "length (w_u_prev w) = nat (d_n d) + nat (d_m d) + 1"
    and "length (w_h w) = nat (d_n d) + nat (d_m d)"
    and "length (w_g w) = nat (d_n d) + nat (d_m d)"
  using assms by (auto simp: work_ok_def nat_add_distrib)







section \<open>Solution extraction\<close>



lemma ex_work_ok: "work_ok ex_d ex_w"
  by (simp add: work_ok_def ex_d_def ex_w_def)












section \<open>The projections\<close>

lemma one_mult [simp]: "Fin 1 * y = y" "y * Fin 1 = y"
  by (cases y; simp add: pfloat_ops)+

lemma add_neg_mult: "x + (- t) * y = x - y * t" for x :: pfloat
  by (cases x; cases t; cases y) (auto simp: pfloat_ops)

lemma neg_div: "(- a) / b = - (a / b)" for a :: pfloat
  by (cases a; cases b) (auto simp: pfloat_ops)

lemma mult_minus_one: "x * Fin (- 1) = - x"
  by (cases x) (auto simp: pfloat_ops)

lemma max_zero: "max x (Fin 0) = (if x < Fin 0 then Fin 0 else x)"
  by (cases x) (auto simp: max_def pfloat_ops)

lemma map_upt_eqI:
  assumes "length xs = N" "\<And>i. i < N \<Longrightarrow> xs ! i = f i"
  shows "xs = map f [0..<N]"
  using assms by (auto intro: nth_equalityI)

text \<open>
  C3. The linear-system projection performs, in this order: \<open>u_t = u + v\<close>; the first
  \<open>n\<close> entries times \<open>RHO_X\<close>; \<open>h * u_t[l-1]\<close> subtracted from the first \<open>l - 1\<close> entries;
  \<open>h * (<u_t, g> / (gTh + 1))\<close> subtracted from the first \<open>l - 1\<close> entries; the entries
  \<open>n..n+m\<close> negated; the subsolver called on \<open>u_t[0..l-1)\<close> with the hint \<open>u\<close>, its result
  stored in place; and \<open>u_t[l-1]\<close> increased by \<open><u_t[0..l-1), h>\<close>.
\<close>

theorem projectLinSys_steps:
  fixes E :: "'k ext"
  assumes "work_ok d w"
  shows "projectLinSys E d w iter = projectLinSys_spec E d w iter"
proof -
  note ok = work_okD [OF assms]
  define n m l where "n = nat (d_n d)" and "m = nat (d_m d)" and "l = nat (w_l w)"
  have l: "nat (w_l w) = l" "nat (w_l w - 1) = l - 1" "length (w_u_t w) = l"
    "nat (d_n d) = n" "nat (d_m d) = m"
    unfolding n_def m_def l_def using ok(1,2,6) by linarith+
  define c1 where "c1 = addScaledArray (memcpy (w_u_t w) 0 (w_u w) (w_l w)) 0 (w_v w) (w_l w) (Fin 1)"
  define c2 where "c2 = scaleArray c1 0 (RHO_X d) (d_n d)"
  define c3 where "c3 = addScaledArray c2 0 (w_h w) (w_l w - 1) (- (c2 ! nat (w_l w - 1)))"
  define c4 where "c4 = addScaledArray c3 0 (w_h w) (w_l w - 1)
                          (- innerProd c3 (w_g w) (w_l w - 1) / (w_gTh w + Fin 1))"
  define c5 where "c5 = scaleArray c4 (nat (d_n d)) (Fin (- 1)) (d_m d)"
  define c6 where "c6 = solve_in_place E d (w\<lparr>w_u_t := c5\<rparr>) c5 (Some (w_u w)) iter"
  define c7 where "c7 = c6[nat (w_l w - 1) := c6 ! nat (w_l w - 1) + innerProd c6 (w_h w) (w_l w - 1)]"
  have code: "projectLinSys E d w iter = w\<lparr>w_u_t := c7\<rparr>"
    unfolding projectLinSys_def Let_def c1_def c2_def c3_def c4_def c5_def c6_def c7_def
    by (rule refl)
  define ut1 where "ut1 = map (\<lambda>i. w_u w ! i + w_v w ! i) [0..<l]"
  define ut2 where "ut2 = map (\<lambda>i. if i < n then ut1 ! i * RHO_X d else ut1 ! i) [0..<l]"
  define ut3 where
    "ut3 = map (\<lambda>i. if i < l - 1 then ut2 ! i - w_h w ! i * ut2 ! (l - 1) else ut2 ! i) [0..<l]"
  define ut4 where
    "ut4 = map (\<lambda>i. if i < l - 1
                     then ut3 ! i - w_h w ! i * (innerProd ut3 (w_g w) (w_l w - 1) / (w_gTh w + Fin 1))
                     else ut3 ! i) [0..<l]"
  define ut5 where "ut5 = map (\<lambda>i. if n \<le> i \<and> i < n + m then - ut4 ! i else ut4 ! i) [0..<l]"
  define z where "z = solveLinSys E d (w\<lparr>w_u_t := ut5\<rparr>) (take (l - 1) ut5) (Some (w_u w)) iter"
  define ut6 where "ut6 = map (\<lambda>i. if i < l - 1 then z ! i else ut5 ! i) [0..<l]"
  define ut7 where "ut7 = ut6[l - 1 := ut6 ! (l - 1) + innerProd ut6 (w_h w) (w_l w - 1)]"
  have spec: "projectLinSys_spec E d w iter = w\<lparr>w_u_t := ut7\<rparr>"
    unfolding projectLinSys_spec_def Let_def ut1_def ut2_def ut3_def ut4_def ut5_def z_def
        ut6_def ut7_def n_def m_def l_def
    by (rule refl)
  have e1: "c1 = ut1"
    unfolding ut1_def
    by (rule map_upt_eqI) (simp_all add: c1_def l nth_addScaledArray nth_memcpy)
  have e2: "c2 = ut2"
    unfolding ut2_def
    by (rule map_upt_eqI) (simp_all add: c2_def e1 ut1_def nth_scaleArray l)
  have len2: "length ut2 = l" by (simp add: ut2_def)
  have e3: "c3 = ut3"
    unfolding ut3_def
    by (rule map_upt_eqI) (simp_all add: c3_def e2 len2 l(2) nth_addScaledArray add_neg_mult)
  have len3: "length ut3 = l" by (simp add: ut3_def)
  have e4: "c4 = ut4"
    unfolding ut4_def
    by (rule map_upt_eqI)
       (simp_all add: c4_def e3 len3 l(2) nth_addScaledArray add_neg_mult neg_div)
  have len4: "length ut4 = l" by (simp add: ut4_def)
  have e5: "c5 = ut5"
    unfolding ut5_def
    by (rule map_upt_eqI)
       (simp_all add: c5_def e4 len4 nth_scaleArray mult_minus_one l)
  have len5: "length ut5 = l" by (simp add: ut5_def)
  have e6: "c6 = ut6"
    unfolding ut6_def
    by (rule map_upt_eqI)
       (simp_all add: c6_def e5 len5 solve_in_place_def nth_memcpy l z_def)
  have e7: "c7 = ut7"
    by (simp add: c7_def ut7_def e6 l(2))
  show ?thesis
    by (simp only: code spec e7)
qed

lemma ex_projectLinSys_spec:
  "w_u_t (projectLinSys_spec ex_E ex_d ex_w 0) = [Fin 1, Fin (- 1), Fin 1]"
  by (simp add: projectLinSys_spec_def Let_def ex_d_def ex_w_def ex_E_def ex_solveLinSys_def
      innerProd_def pfloat_ops eval_nat_numeral)

theorem projectLinSys_steps_witness:
  "work_ok ex_d ex_w \<and> w_u_t (projectLinSys ex_E ex_d ex_w 0) = [Fin 1, Fin (- 1), Fin 1]"
  using projectLinSys_steps [OF ex_work_ok, of ex_E 0] ex_work_ok ex_projectLinSys_spec
  by simp

text \<open>
  C4. The cone-projection phase sets \<open>u[i] = u_t[i] - v[i]\<close> for \<open>i < n\<close> (no relaxation on
  the \<open>x\<close> block) and \<open>u[i] = ALPHA * u_t[i] + (1 - ALPHA) * u_prev[i] - v[i]\<close> for
  \<open>n \<le> i < l\<close>, then projects \<open>u[n..n+m)\<close> onto the cone, passing the iteration index, and
  finally clamps \<open>u[l-1]\<close> to \<open>max (u[l-1]) 0\<close>. (\<open>max a b\<close> is \<open>b\<close> when \<open>a \<le> b\<close> and \<open>a\<close>
  otherwise, so a \<open>NaN\<close> entry stays \<open>NaN\<close>, as in the code.)
\<close>

theorem projectCones_steps:
  fixes E :: "'k ext"
  assumes "work_ok d w"
  shows "projectCones E d w k iter = projectCones_spec E d w k iter"
proof -
  note ok = work_okD [OF assms]
  define n m l where "n = nat (d_n d)" and "m = nat (d_m d)" and "l = nat (w_l w)"
  have l: "nat (w_l w) = l" "nat (w_l w - 1) = l - 1" "length (w_u w) = l"
    "nat (d_n d) = n" "nat (d_m d) = m" "nat (w_l w - d_n d) = l - n" "n \<le> l"
    unfolding n_def m_def l_def using ok(1,2,3,4) by linarith+
  define c1 where "c1 = upd_range 0 (nat (d_n d)) (\<lambda>i. w_u_t w ! i - w_v w ! i) (w_u w)"
  define c2 where
    "c2 = upd_range (nat (d_n d)) (nat (w_l w - d_n d))
            (\<lambda>j. let i = nat (d_n d) + j in
                  ALPHA d * w_u_t w ! i + (Fin 1 - ALPHA d) * w_u_prev w ! i - w_v w ! i) c1"
  define c3 where
    "c3 = memcpy c2 (nat (d_n d))
            (projCone E (take (nat (d_m d)) (drop (nat (d_n d)) c2)) k iter) (d_m d)"
  define c4 where
    "c4 = (if c3 ! nat (w_l w - 1) < Fin 0 then c3[nat (w_l w - 1) := Fin 0] else c3)"
  have code: "projectCones E d w k iter = w\<lparr>w_u := c4\<rparr>"
    unfolding projectCones_def Let_def c1_def c2_def c3_def c4_def
    by (rule refl)
  define u1 where
    "u1 = map (\<lambda>i. if i < n then w_u_t w ! i - w_v w ! i
                    else ALPHA d * w_u_t w ! i + (Fin 1 - ALPHA d) * w_u_prev w ! i - w_v w ! i)
            [0..<l]"
  define y where "y = projCone E (take m (drop n u1)) k iter"
  define u2 where "u2 = map (\<lambda>i. if n \<le> i \<and> i < n + m then y ! (i - n) else u1 ! i) [0..<l]"
  define u3 where "u3 = u2[l - 1 := max (u2 ! (l - 1)) (Fin 0)]"
  have spec: "projectCones_spec E d w k iter = w\<lparr>w_u := u3\<rparr>"
    unfolding projectCones_spec_def Let_def u1_def y_def u2_def u3_def n_def m_def l_def
    by (rule refl)
  have len1: "length c1 = l"
    by (simp add: c1_def l)
  have e2: "c2 = u1"
    unfolding u1_def
  proof (rule map_upt_eqI)
    show "length c2 = l"
      by (simp add: c2_def len1)
    fix i assume i: "i < l"
    show "c2 ! i = (if i < n then w_u_t w ! i - w_v w ! i
                    else ALPHA d * w_u_t w ! i + (Fin 1 - ALPHA d) * w_u_prev w ! i - w_v w ! i)"
    proof (cases "i < n")
      case True
      then show ?thesis
        using i by (simp add: c2_def c1_def len1 l nth_upd_range)
    next
      case False
      then show ?thesis
        using i l(7) by (simp add: c2_def len1 l nth_upd_range Let_def)
    qed
  qed
  have lenu1: "length u1 = l"
    by (simp add: u1_def)
  have e3: "c3 = u2"
    unfolding u2_def
    by (rule map_upt_eqI) (simp_all add: c3_def e2 lenu1 l nth_memcpy y_def)
  have e4: "c4 = u3"
    by (simp add: c4_def u3_def e3 l max_zero)
  show ?thesis
    by (simp only: code spec e4)
qed

lemma ex_projectCones_spec:
  "w_u (projectCones_spec ex_E ex_d ex_w () 0) = [Fin 1, Fin (- 1), Fin 1]"
  by (simp add: projectCones_spec_def Let_def ex_d_def ex_w_def ex_E_def max_zero
      pfloat_ops eval_nat_numeral)

theorem projectCones_steps_witness:
  "work_ok ex_d ex_w \<and> w_u (projectCones ex_E ex_d ex_w () 0) = [Fin 1, Fin (- 1), Fin 1]"
  using projectCones_steps [OF ex_work_ok, of ex_E "()" 0] ex_work_ok ex_projectCones_spec
  by simp

section \<open>NaN in the convergence test\<close>

lemma MAX_pfloat_NaN: "MAX_pfloat a NaN = NaN"
  by (simp add: MAX_pfloat_def)

lemma scs_loop_continue:
  assumes "i < MAX_ITERS d" and "fst (scs_iteration E d k w r i) = 0"
  shows "scs_loop E d k i st w r out =
           scs_loop E d k (i + 1) 0 (fst (snd (scs_iteration E d k w r i)))
             (snd (snd (scs_iteration E d k w r i)))
             (if i mod PRINT_INTERVAL = 0 \<and> VERBOSE d \<noteq> 0
              then out @ printSummary E i (snd (snd (scs_iteration E d k w r i))) else out)"
  using assms by (subst scs_loop.simps) (simp add: split_beta Let_def)

text \<open>
  C6, as amended. A \<open>NaN\<close> makes the comparison it appears in false, so the test of that
  comparison does not fire: the check does not return \<open>UNBOUNDED\<close> when the unboundedness
  ratio is \<open>NaN\<close>, nor \<open>INFEASIBLE\<close> when the infeasibility ratio is \<open>NaN\<close>, nor \<open>SOLVED\<close>
  when the gap is \<open>NaN\<close>. The later tests are still evaluated; the check returns 0 when all
  three quantities are \<open>NaN\<close>, and the loop goes on to the next index while the check returns
  0 below the iteration limit. As stated (any \<open>NaN\<close> quantity makes the check return 0) the
  claim fails: with a \<open>NaN\<close> unboundedness ratio the check returns \<open>INFEASIBLE\<close> at
  \<open>cx6_w\<close>, and at the solved workspace \<open>ex_w\<close> the code itself stores \<open>NaN\<close> in
  \<open>r->resPri\<close> (because \<open>cTx \<ge> 0\<close>) and returns \<open>SOLVED\<close>.
\<close>

theorem converged_NaN:
  "(unbounded_ratio d w = NaN \<longrightarrow> fst (converged d w r iter) \<noteq> UNBOUNDED)
   \<and> (infeasible_ratio d w = NaN \<longrightarrow> fst (converged d w r iter) \<noteq> INFEASIBLE)
   \<and> (rel_gap d w = NaN \<longrightarrow> fst (converged d w r iter) \<noteq> SOLVED)
   \<and> (unbounded_ratio d w = NaN \<and> infeasible_ratio d w = NaN \<and> rel_gap d w = NaN
        \<longrightarrow> fst (converged d w r iter) = 0)
   \<and> (i < MAX_ITERS d \<and> fst (scs_iteration E d k w r i) = 0 \<longrightarrow>
        scs_loop E d k i st w r out =
          scs_loop E d k (i + 1) 0 (fst (snd (scs_iteration E d k w r i)))
            (snd (snd (scs_iteration E d k w r i)))
            (if i mod PRINT_INTERVAL = 0 \<and> VERBOSE d \<noteq> 0
             then out @ printSummary E i (snd (snd (scs_iteration E d k w r i))) else out))"
proof (intro conjI impI)
  assume "unbounded_ratio d w = NaN"
  then show "fst (converged d w r iter) \<noteq> UNBOUNDED"
    by (simp add: converged_def exactConverged_status UNBOUNDED_def INFEASIBLE_def SOLVED_def)
next
  assume "infeasible_ratio d w = NaN"
  then show "fst (converged d w r iter) \<noteq> INFEASIBLE"
    by (simp add: converged_def exactConverged_status UNBOUNDED_def INFEASIBLE_def SOLVED_def)
next
  assume "rel_gap d w = NaN"
  then show "fst (converged d w r iter) \<noteq> SOLVED"
    by (simp add: converged_def exactConverged_status MAX_pfloat_NaN UNBOUNDED_def INFEASIBLE_def
        SOLVED_def)
next
  assume "unbounded_ratio d w = NaN \<and> infeasible_ratio d w = NaN \<and> rel_gap d w = NaN"
  then show "fst (converged d w r iter) = 0"
    by (simp add: converged_def exactConverged_status MAX_pfloat_NaN)
next
  assume "i < MAX_ITERS d \<and> fst (scs_iteration E d k w r i) = 0"
  then show "scs_loop E d k i st w r out =
          scs_loop E d k (i + 1) 0 (fst (snd (scs_iteration E d k w r i)))
            (snd (snd (scs_iteration E d k w r i)))
            (if i mod PRINT_INTERVAL = 0 \<and> VERBOSE d \<noteq> 0
             then out @ printSummary E i (snd (snd (scs_iteration E d k w r i))) else out)"
    using scs_loop_continue [of i d E k w r st out] by simp
qed

lemma cx6_fast_pr: "fast_pr cx6_d cx6_w = [NaN]"
  by (simp add: fast_pr_def cx6_d_def cx6_w_def ex_d_def ex_w_def kernel_defs pfloat_ops Let_def)

lemma cx6_fastCalc: "fastCalcPrimalResid cx6_d cx6_w = (NaN, NaN, cx6_w\<lparr>w_pr := [NaN]\<rparr>)"
  by (simp add: fastCalcPrimalResid_def primalResidLoop_def cx6_fast_pr Let_def)
     (simp add: cx6_d_def cx6_w_def ex_d_def ex_w_def pfloat_ops ABS_def)

lemma cx6_calcDual:
  "calcDualResid cx6_d (cx6_w\<lparr>w_pr := [NaN]\<rparr>) (drop (nat (d_n cx6_d)) (w_u cx6_w)) (Fin 1) =
     (Fin 1, Fin 0, cx6_w\<lparr>w_pr := [NaN], w_dr := [Fin 0]\<rparr>)"
  by (simp add: calcDualResid_def Let_def cx6_d_def cx6_w_def ex_d_def ex_w_def kernel_defs
      pfloat_ops)

lemma cx6_quantities:
  "ec_tau cx6_w = Fin 1" "ec_cTx cx6_d cx6_w = Fin (- 1)" "ec_bTy cx6_d cx6_w = Fin (- 1)"
  "ec_nmAxs cx6_d cx6_w = NaN" "ec_nmATy cx6_d cx6_w = Fin 0"
proof -
  show t: "ec_tau cx6_w = Fin 1"
    by (simp add: ec_tau_def cx6_w_def ex_w_def ABS_def pfloat_ops)
  show "ec_cTx cx6_d cx6_w = Fin (- 1)"
    by (simp add: ec_cTx_def cx6_d_def cx6_w_def ex_d_def ex_w_def kernel_defs pfloat_ops)
  show "ec_bTy cx6_d cx6_w = Fin (- 1)"
    by (simp add: ec_bTy_def cx6_d_def cx6_w_def ex_d_def ex_w_def kernel_defs pfloat_ops)
  show "ec_nmAxs cx6_d cx6_w = NaN"
    by (simp add: ec_nmAxs_def cx6_fastCalc)
  show "ec_nmATy cx6_d cx6_w = Fin 0"
    by (simp add: ec_nmATy_def cx6_fastCalc t cx6_calcDual)
qed

theorem converged_NaN_counterexample:
  "unbounded_ratio cx6_d cx6_w = NaN \<and> fst (converged cx6_d cx6_w ex_r 0) = - 2 \<and>
   (if ec_cTx ex_d ex_w < Fin 0 then unbounded_ratio ex_d ex_w else NaN) = NaN \<and>
   fst (converged ex_d ex_w ex_r 0) = 1"
proof -
  have u: "unbounded_ratio cx6_d cx6_w = NaN"
    by (simp add: unbounded_ratio_def cx6_quantities)
  have i: "infeasible_ratio cx6_d cx6_w = Fin 0"
    by (simp add: infeasible_ratio_def cx6_quantities)
       (simp add: cx6_w_def ex_w_def pfloat_ops)
  have "fst (converged cx6_d cx6_w ex_r 0) = - 2"
    by (simp add: converged_def exactConverged_status u i cx6_quantities INFEASIBLE_def)
       (simp add: cx6_d_def ex_d_def pfloat_ops)
  moreover have "fst (converged ex_d ex_w ex_r 0) = 1"
    by (simp add: converged_def exactConverged_status ex_quantities unbounded_ratio_def
        infeasible_ratio_def rel_gap_def SOLVED_def)
       (simp add: ex_d_def ex_w_def ABS_def MAX_pfloat_def pfloat_ops)
  moreover have "(if ec_cTx ex_d ex_w < Fin 0 then unbounded_ratio ex_d ex_w else NaN) = NaN"
    by (simp add: ex_quantities pfloat_ops)
  ultimately show ?thesis
    using u by simp
qed

theorem converged_NaN_witness:
  "unbounded_ratio cx6_d cx6_w = NaN \<and> fst (converged cx6_d cx6_w ex_r 0) \<noteq> UNBOUNDED"
proof -
  have u: "unbounded_ratio cx6_d cx6_w = NaN"
    by (simp add: unbounded_ratio_def cx6_quantities)
  show ?thesis
    using converged_NaN [of cx6_d cx6_w ex_r 0 0 ex_E "()" 0 "[]"] u by simp
qed

section \<open>The workspace across an iteration\<close>

lemma projectLinSys_fields:
  fixes E :: "'k ext"
  shows "projectLinSys E d w i = w\<lparr>w_u_t := w_u_t (projectLinSys E d w i)\<rparr>"
    and "length (w_u_t (projectLinSys E d w i)) = length (w_u_t w)"
proof -
  define c1 where "c1 = addScaledArray (memcpy (w_u_t w) 0 (w_u w) (w_l w)) 0 (w_v w) (w_l w) (Fin 1)"
  define c2 where "c2 = scaleArray c1 0 (RHO_X d) (d_n d)"
  define c3 where "c3 = addScaledArray c2 0 (w_h w) (w_l w - 1) (- (c2 ! nat (w_l w - 1)))"
  define c4 where "c4 = addScaledArray c3 0 (w_h w) (w_l w - 1)
                          (- innerProd c3 (w_g w) (w_l w - 1) / (w_gTh w + Fin 1))"
  define c5 where "c5 = scaleArray c4 (nat (d_n d)) (Fin (- 1)) (d_m d)"
  define c6 where "c6 = solve_in_place E d (w\<lparr>w_u_t := c5\<rparr>) c5 (Some (w_u w)) i"
  define c7 where "c7 = c6[nat (w_l w - 1) := c6 ! nat (w_l w - 1) + innerProd c6 (w_h w) (w_l w - 1)]"
  have code: "projectLinSys E d w i = w\<lparr>w_u_t := c7\<rparr>"
    unfolding projectLinSys_def Let_def c1_def c2_def c3_def c4_def c5_def c6_def c7_def
    by (rule refl)
  have "length c1 = length (w_u_t w)" by (simp add: c1_def)
  then have "length c2 = length (w_u_t w)" by (simp add: c2_def)
  then have "length c3 = length (w_u_t w)" by (simp add: c3_def)
  then have "length c4 = length (w_u_t w)" by (simp add: c4_def)
  then have "length c5 = length (w_u_t w)" by (simp add: c5_def)
  then have "length c6 = length (w_u_t w)" by (simp add: c6_def solve_in_place_def)
  then have len: "length c7 = length (w_u_t w)" by (simp add: c7_def)
  show "projectLinSys E d w i = w\<lparr>w_u_t := w_u_t (projectLinSys E d w i)\<rparr>"
    by (simp add: code)
  show "length (w_u_t (projectLinSys E d w i)) = length (w_u_t w)"
    by (simp add: code len)
qed

lemma projectCones_fields:
  fixes E :: "'k ext"
  shows "projectCones E d w k i = w\<lparr>w_u := w_u (projectCones E d w k i)\<rparr>"
    and "length (w_u (projectCones E d w k i)) = length (w_u w)"
proof -
  define c1 where "c1 = upd_range 0 (nat (d_n d)) (\<lambda>i. w_u_t w ! i - w_v w ! i) (w_u w)"
  define c2 where
    "c2 = upd_range (nat (d_n d)) (nat (w_l w - d_n d))
            (\<lambda>j. let i = nat (d_n d) + j in
                  ALPHA d * w_u_t w ! i + (Fin 1 - ALPHA d) * w_u_prev w ! i - w_v w ! i) c1"
  define c3 where
    "c3 = memcpy c2 (nat (d_n d))
            (projCone E (take (nat (d_m d)) (drop (nat (d_n d)) c2)) k i) (d_m d)"
  define c4 where
    "c4 = (if c3 ! nat (w_l w - 1) < Fin 0 then c3[nat (w_l w - 1) := Fin 0] else c3)"
  have code: "projectCones E d w k i = w\<lparr>w_u := c4\<rparr>"
    unfolding projectCones_def Let_def c1_def c2_def c3_def c4_def
    by (rule refl)
  have "length c1 = length (w_u w)" by (simp add: c1_def)
  then have "length c2 = length (w_u w)" by (simp add: c2_def)
  then have "length c3 = length (w_u w)" by (simp add: c3_def)
  then have len: "length c4 = length (w_u w)" by (simp add: c4_def)
  show "projectCones E d w k i = w\<lparr>w_u := w_u (projectCones E d w k i)\<rparr>"
    by (simp add: code)
  show "length (w_u (projectCones E d w k i)) = length (w_u w)"
    by (simp add: code len)
qed

lemma take_upd_range_above: "take n (upd_range n c f v) = take n v"
  by (rule nth_equalityI) (simp_all add: nth_upd_range)

lemma updateDualVars_fields:
  "updateDualVars d w = w\<lparr>w_v := w_v (updateDualVars d w)\<rparr>"
  "length (w_v (updateDualVars d w)) = length (w_v w)"
  "take (nat (d_n d)) (w_v (updateDualVars d w)) = take (nat (d_n d)) (w_v w)"
  by (simp_all add: updateDualVars_def Let_def take_upd_range_above)

lemma exactConverged_fields:
  "fst (snd (exactConverged d w r)) =
     w\<lparr>w_pr := w_pr (fst (snd (exactConverged d w r))),
       w_dr := w_dr (fst (snd (exactConverged d w r)))\<rparr>"
proof -
  obtain nmpr nmAxs w1 where f: "fastCalcPrimalResid d w = (nmpr, nmAxs, w1)"
    by (cases "fastCalcPrimalResid d w") auto
  obtain nmdr nmATy w2 where
    g: "calcDualResid d w1 (drop (nat (d_n d)) (w_u w)) (ABS (w_u w ! nat (w_l w - 1))) =
          (nmdr, nmATy, w2)"
    by (cases "calcDualResid d w1 (drop (nat (d_n d)) (w_u w)) (ABS (w_u w ! nat (w_l w - 1)))")
       auto
  have w1: "w1 = w\<lparr>w_pr := fast_pr d w\<rparr>"
    using fastCalcPrimalResid_work [of d w] by (simp add: f)
  have w2: "w2 = w1\<lparr>w_dr := accumByAtrans d (drop (nat (d_n d)) (w_u w)) (memset0 (w_dr w1) (d_n d))\<rparr>"
    using calcDualResid_work [of d w1 "drop (nat (d_n d)) (w_u w)" "ABS (w_u w ! nat (w_l w - 1))"]
    by (simp add: g)
  have "fst (snd (exactConverged d w r)) = w1 \<or> fst (snd (exactConverged d w r)) = w2"
    by (simp add: exactConverged_def Let_def f g)
  then show ?thesis
    by (auto simp: w1 w2)
qed

lemma converged_fields:
  "fst (snd (converged d w r i)) =
     w\<lparr>w_pr := w_pr (fst (snd (converged d w r i))),
       w_dr := w_dr (fst (snd (converged d w r i)))\<rparr>"
  using exactConverged_fields [of d w r] by (simp add: converged_def)

lemma projectLinSys_other:
  "w_u (projectLinSys E d w i) = w_u w" "w_v (projectLinSys E d w i) = w_v w"
  "w_u_prev (projectLinSys E d w i) = w_u_prev w" "w_l (projectLinSys E d w i) = w_l w"
  "w_h (projectLinSys E d w i) = w_h w" "w_g (projectLinSys E d w i) = w_g w"
  by (subst projectLinSys_fields(1), simp)+

lemma projectCones_other:
  "w_u_t (projectCones E d w k i) = w_u_t w" "w_v (projectCones E d w k i) = w_v w"
  "w_u_prev (projectCones E d w k i) = w_u_prev w" "w_l (projectCones E d w k i) = w_l w"
  "w_h (projectCones E d w k i) = w_h w" "w_g (projectCones E d w k i) = w_g w"
  by (subst projectCones_fields(1), simp)+

lemma updateDualVars_other:
  "w_u (updateDualVars d w) = w_u w" "w_u_t (updateDualVars d w) = w_u_t w"
  "w_u_prev (updateDualVars d w) = w_u_prev w" "w_l (updateDualVars d w) = w_l w"
  "w_h (updateDualVars d w) = w_h w" "w_g (updateDualVars d w) = w_g w"
  by (subst updateDualVars_fields(1), simp)+

lemma converged_other:
  "w_u (fst (snd (converged d w r i))) = w_u w" "w_v (fst (snd (converged d w r i))) = w_v w"
  "w_u_t (fst (snd (converged d w r i))) = w_u_t w"
  "w_u_prev (fst (snd (converged d w r i))) = w_u_prev w"
  "w_l (fst (snd (converged d w r i))) = w_l w"
  "w_h (fst (snd (converged d w r i))) = w_h w" "w_g (fst (snd (converged d w r i))) = w_g w"
  by (subst converged_fields, simp)+

lemma before_cones_other:
  "w_u (before_cones E d w i) = w_u w" "w_v (before_cones E d w i) = w_v w"
  "w_u_prev (before_cones E d w i) = memcpy (w_u_prev w) 0 (w_u w) (w_l w)"
  "w_l (before_cones E d w i) = w_l w"
  "w_h (before_cones E d w i) = w_h w" "w_g (before_cones E d w i) = w_g w"
  "length (w_u_t (before_cones E d w i)) = length (w_u_t w)"
  by (simp_all add: before_cones_def projectLinSys_other projectLinSys_fields(2))

text \<open>The workspace after one pass through the body of the loop.\<close>

lemma scs_iteration_work:
  "fst (snd (scs_iteration E d k w r i)) =
     fst (snd (converged d (updateDualVars d (projectCones E d (before_cones E d w i) k i)) r i))"
  by (simp add: scs_iteration_def before_cones_def Let_def)

lemma scs_iteration_u:
  "w_u (fst (snd (scs_iteration E d k w r i))) = w_u (projectCones E d (before_cones E d w i) k i)"
  by (simp add: scs_iteration_work converged_other updateDualVars_other)

lemma scs_iteration_v:
  "w_v (fst (snd (scs_iteration E d k w r i))) =
     w_v (updateDualVars d (projectCones E d (before_cones E d w i) k i))"
  by (simp add: scs_iteration_work converged_other)

lemma scs_iteration_work_ok:
  assumes "work_ok d w"
  shows "work_ok d (fst (snd (scs_iteration E d k w r i)))"
  using assms
  by (simp add: work_ok_def scs_iteration_work converged_other updateDualVars_other
      updateDualVars_fields(2) projectCones_other projectCones_fields(2) before_cones_other)

lemma scs_iteration_x_block:
  "take (nat (d_n d)) (w_v (fst (snd (scs_iteration E d k w r i)))) = take (nat (d_n d)) (w_v w)"
  by (simp add: scs_iteration_v updateDualVars_fields(3) projectCones_other before_cones_other)

lemma iterates_invariant:
  assumes "work_ok d w" "x_block_zero d w"
  shows "work_ok d (fst (snd (iterates E d k w r j))) \<and>
         x_block_zero d (fst (snd (iterates E d k w r j)))"
proof (induction j)
  case 0
  show ?case using assms by simp
next
  case (Suc j)
  then show ?case
    by (simp add: split_beta Let_def scs_iteration_work_ok x_block_zero_def scs_iteration_x_block)
qed

section \<open>Cold start\<close>

lemma minus_zero [simp]: "x - Fin 0 = x"
  by (cases x) (simp_all add: pfloat_ops)

lemma coldStartVars_ok:
  assumes "work_ok d w"
  shows "work_ok d (coldStartVars d w)" and "x_block_zero d (coldStartVars d w)"
proof -
  note ok = work_okD [OF assms]
  show "work_ok d (coldStartVars d w)"
    using assms by (simp add: work_ok_def coldStartVars_def Let_def)
  have "take (nat (d_n d)) ((memset0 (w_v w) (w_l w))[nat (w_l w - 1) := z]) =
          replicate (nat (d_n d)) (Fin 0)" for z
    by (rule nth_equalityI) (simp_all add: ok memset0_def nth_upd_range nth_list_update)
  then show "x_block_zero d (coldStartVars d w)"
    by (simp add: x_block_zero_def coldStartVars_def Let_def)
qed

lemma updateWork_cold:
  fixes E :: "'k ext"
  assumes cold: "WARM_START d = 0" and ok: "work_ok d w"
    and norm: "NORMALIZE d = 0 \<or> normalizeBC_ok E"
  shows "work_ok (fst (updateWork E d w sol)) (snd (updateWork E d w sol))"
    and "x_block_zero (fst (updateWork E d w sol)) (snd (updateWork E d w sol))"
proof -
  define w1 where "w1 = w\<lparr>w_nm_b := calcNorm (the (d_b d)) (d_m d),
                          w_nm_c := calcNorm (the (d_c d)) (d_n d)\<rparr>"
  define p where "p = (if NORMALIZE d \<noteq> 0 then normalizeBC E d w1 else (d, w1))"
  define X where "X = coldStartVars (fst p) (snd p)"
  have ok1: "work_ok d w1"
    using ok by (simp add: work_ok_def w1_def)
  have okp: "work_ok (fst p) (snd p)" and coldp: "WARM_START (fst p) = 0"
    using norm ok1 cold by (auto simp: p_def normalizeBC_ok_def)
  note okX = coldStartVars_ok [OF okp, folded X_def]
  have eqs: "fst (updateWork E d w sol) = fst p \<and>
    w_u (snd (updateWork E d w sol)) = w_u X \<and> w_v (snd (updateWork E d w sol)) = w_v X \<and>
    w_u_t (snd (updateWork E d w sol)) = w_u_t X \<and>
    w_u_prev (snd (updateWork E d w sol)) = w_u_prev X \<and>
    w_l (snd (updateWork E d w sol)) = w_l X \<and>
    length (w_h (snd (updateWork E d w sol))) = length (w_h X) \<and>
    length (w_g (snd (updateWork E d w sol))) = length (w_g X)"
  proof (cases "NORMALIZE d = 0")
    case True
    then have p: "p = (d, w1)"
      by (simp add: p_def)
    show ?thesis
      using True cold unfolding X_def p w1_def
      by (simp add: updateWork_def Let_def solve_in_place_def coldStartVars_def)
  next
    case False
    then have p: "p = normalizeBC E d w1"
      by (simp add: p_def)
    have c: "WARM_START (fst (normalizeBC E d w1)) = 0"
      using coldp by (simp add: p)
    show ?thesis
      using False c unfolding X_def p w1_def
      by (simp add: updateWork_def Let_def split_beta solve_in_place_def coldStartVars_def)
  qed
  show "work_ok (fst (updateWork E d w sol)) (snd (updateWork E d w sol))"
    using okX(1) by (simp add: eqs work_ok_def)
  show "x_block_zero (fst (updateWork E d w sol)) (snd (updateWork E d w sol))"
    using okX(2) by (simp add: eqs x_block_zero_def)
qed

lemma x_block_cones:
  fixes E :: "'k ext"
  assumes ok: "work_ok d w" and z: "x_block_zero d w" and i: "i < nat (d_n d)"
  shows "w_u (projectCones E d w k it) ! i = w_u_t w ! i"
proof -
  note okD = work_okD [OF ok]
  have v: "w_v w ! i = Fin 0"
  proof -
    have "w_v w ! i = take (nat (d_n d)) (w_v w) ! i"
      using i by simp
    also have "\<dots> = Fin 0"
      using z i by (simp add: x_block_zero_def)
    finally show ?thesis .
  qed
  define c1 where "c1 = upd_range 0 (nat (d_n d)) (\<lambda>i. w_u_t w ! i - w_v w ! i) (w_u w)"
  define c2 where
    "c2 = upd_range (nat (d_n d)) (nat (w_l w - d_n d))
            (\<lambda>j. let i = nat (d_n d) + j in
                  ALPHA d * w_u_t w ! i + (Fin 1 - ALPHA d) * w_u_prev w ! i - w_v w ! i) c1"
  define c3 where
    "c3 = memcpy c2 (nat (d_n d))
            (projCone E (take (nat (d_m d)) (drop (nat (d_n d)) c2)) k it) (d_m d)"
  have len: "length c1 = nat (d_n d) + nat (d_m d) + 1" "length c2 = nat (d_n d) + nat (d_m d) + 1"
    "length c3 = nat (d_n d) + nat (d_m d) + 1"
    by (simp_all add: c1_def c2_def c3_def okD)
  have 1: "c1 ! i = w_u_t w ! i"
    using i v by (simp add: c1_def nth_upd_range okD)
  have 2: "c2 ! i = c1 ! i"
    using i by (simp add: c2_def nth_upd_range len)
  have 3: "c3 ! i = c2 ! i"
    using i by (simp add: c3_def nth_memcpy len)
  have u: "w_u (projectCones E d w k it) =
             (if c3 ! nat (w_l w - 1) < Fin 0 then c3[nat (w_l w - 1) := Fin 0] else c3)"
    unfolding projectCones_def Let_def c3_def c2_def c1_def by simp
  show ?thesis
    using i by (simp add: u 1 2 3 okD(2))
qed

text \<open>The loop stops at one of the states of \<open>iterates\<close>.\<close>

lemma scs_loop_iterates:
  "0 \<le> i \<Longrightarrow> snd (iterates E d k w0 r0 (nat i)) = (w, r) \<Longrightarrow>
   \<exists>j. fst (snd (snd (scs_loop E d k i st w r out))) = fst (snd (iterates E d k w0 r0 j))"
proof (induction E d k i st w r out rule: scs_loop.induct)
  case (1 E d k i st w r out)
  show ?case
  proof (cases "i < MAX_ITERS d")
    case False
    have "fst (snd (snd (scs_loop E d k i st w r out))) = fst (snd (iterates E d k w0 r0 (nat i)))"
      using False "1.prems"(2) by (subst scs_loop.simps) simp
    then show ?thesis ..
  next
    case True
    obtain st' w' r' where it: "scs_iteration E d k w r i = (st', w', r')"
      by (cases "scs_iteration E d k w r i") auto
    have next_it: "iterates E d k w0 r0 (Suc (nat i)) = (st', w', r')"
      using "1.prems" it by (simp add: split_beta Let_def)
    show ?thesis
    proof (cases "st' = 0")
      case False
      have "fst (snd (snd (scs_loop E d k i st w r out))) =
              fst (snd (iterates E d k w0 r0 (Suc (nat i))))"
        using True False it next_it by (subst scs_loop.simps) simp
      then show ?thesis ..
    next
      case st0: True
      have eq: "scs_loop E d k i st w r out =
              scs_loop E d k (i + 1) st' w' r'
                (if i mod PRINT_INTERVAL = 0 \<and> VERBOSE d \<noteq> 0
                 then out @ printSummary E i r' else out)"
        using True st0 it by (subst scs_loop.simps) simp
      have n: "nat (i + 1) = Suc (nat i)"
        using "1.prems"(1) by simp
      have "\<exists>j. fst (snd (snd (scs_loop E d k (i + 1) st' w' r'
                (if i mod PRINT_INTERVAL = 0 \<and> VERBOSE d \<noteq> 0
                 then out @ printSummary E i r' else out)))) =
              fst (snd (iterates E d k w0 r0 j))"
        using "1.prems"(1) next_it
        by (intro "1.IH" [OF True it [symmetric] refl refl]) (simp_all add: st0 n)
      then show ?thesis
        by (simp only: eq)
    qed
  qed
qed

lemma updateWork_data: "NORMALIZE d = 0 \<Longrightarrow> fst (updateWork E d w sol) = d"
  by (simp add: updateWork_def Let_def)

text \<open>
  C10. Under cold start the first \<open>n\<close> entries of \<open>v\<close> are zero after \<open>updateWork\<close>, after
  every pass through the body of the loop and in the workspace the loop stops with: the dual
  update keeps the first \<open>n\<close> entries of \<open>v\<close> and no other phase of an iteration changes
  \<open>v\<close>. In the cone-projection phase of every iteration the update of the \<open>x\<close> block is
  therefore \<open>u[i] = u_t[i]\<close> for \<open>i < n\<close>. The workspace has the allocated sizes, and the
  normalizer, when it is used, keeps them and the warm-start flag.
\<close>

theorem cold_start_x_block:
  fixes E :: "'k ext"
  assumes cold: "WARM_START d = 0" and ok: "work_ok d w"
    and norm: "NORMALIZE d = 0 \<or> normalizeBC_ok E"
  shows
    "(let d' = fst (updateWork E d w sol);
          w0 = snd (updateWork E d w sol);
          wj = fst (snd (iterates E d' k w0 r0 j));
          wc = before_cones E d' wj (int j)
      in x_block_zero d' w0 \<and> x_block_zero d' wj \<and>
         x_block_zero d' (fst (snd (snd (scs_loop E d' k 0 st w0 r0 out)))) \<and>
         (\<forall>i < nat (d_n d'). w_u (projectCones E d' wc k (int j)) ! i = w_u_t wc ! i)) \<and>
     take (nat (d_n da)) (w_v (updateDualVars da wa)) = take (nat (d_n da)) (w_v wa) \<and>
     w_v (projectLinSys E da wa it) = w_v wa \<and> w_v (projectCones E da wa k it) = w_v wa \<and>
     w_v (fst (snd (converged da wa ra it))) = w_v wa"
proof -
  define d' where "d' = fst (updateWork E d w sol)"
  define w0 where "w0 = snd (updateWork E d w sol)"
  define wj where "wj = fst (snd (iterates E d' k w0 r0 j))"
  define wc where "wc = before_cones E d' wj (int j)"
  have init: "work_ok d' w0" "x_block_zero d' w0"
    using updateWork_cold [OF cold ok norm, of sol] by (simp_all add: d'_def w0_def)
  have inv: "work_ok d' (fst (snd (iterates E d' k w0 r0 j')))"
    "x_block_zero d' (fst (snd (iterates E d' k w0 r0 j')))" for j'
    using iterates_invariant [OF init, of E k r0 j'] by simp_all
  have "snd (iterates E d' k w0 r0 (nat 0)) = (w0, r0)"
    by simp
  from scs_loop_iterates [OF order_refl this, of st out]
  obtain j' where "fst (snd (snd (scs_loop E d' k 0 st w0 r0 out))) =
      fst (snd (iterates E d' k w0 r0 j'))"
    by blast
  then have final: "x_block_zero d' (fst (snd (snd (scs_loop E d' k 0 st w0 r0 out))))"
    using inv(2) [of j'] by simp
  have okc: "work_ok d' wc" "x_block_zero d' wc"
    using inv [of j]
    by (simp_all add: wc_def wj_def work_ok_def x_block_zero_def before_cones_other)
  have cones: "\<forall>i < nat (d_n d'). w_u (projectCones E d' wc k (int j)) ! i = w_u_t wc ! i"
    by (simp add: x_block_cones [OF okc])
  have writes: "take (nat (d_n da)) (w_v (updateDualVars da wa)) = take (nat (d_n da)) (w_v wa)"
    "w_v (projectLinSys E da wa it) = w_v wa" "w_v (projectCones E da wa k it) = w_v wa"
    "w_v (fst (snd (converged da wa ra it))) = w_v wa"
    by (simp_all add: updateDualVars_fields(3) projectLinSys_other projectCones_other
        converged_other)
  show ?thesis
    unfolding Let_def d'_def [symmetric] w0_def [symmetric] wj_def [symmetric]
      wc_def [symmetric]
    using init(2) inv(2) [of j] final cones writes by (simp add: wj_def)
qed

theorem cold_start_x_block_witness:
  "WARM_START ex_d = 0 \<and> work_ok ex_d ex_w \<and> NORMALIZE ex_d = 0 \<and> nat (d_n ex_d) = 1 \<and>
   x_block_zero ex_d (snd (updateWork ex_E ex_d ex_w ex_sol)) \<and>
   x_block_zero ex_d
     (fst (snd (iterates ex_E ex_d () (snd (updateWork ex_E ex_d ex_w ex_sol)) ex_r 1))) \<and>
   w_u (projectCones ex_E ex_d
          (before_cones ex_E ex_d
             (fst (snd (iterates ex_E ex_d () (snd (updateWork ex_E ex_d ex_w ex_sol)) ex_r 1)))
             1) () 1) ! 0 =
   w_u_t (before_cones ex_E ex_d
            (fst (snd (iterates ex_E ex_d () (snd (updateWork ex_E ex_d ex_w ex_sol)) ex_r 1)))
            1) ! 0"
proof -
  have n: "NORMALIZE ex_d = 0" "WARM_START ex_d = 0" "nat (d_n ex_d) = 1"
    by (simp_all add: ex_d_def)
  have d: "fst (updateWork ex_E ex_d ex_w ex_sol) = ex_d"
    using n(1) by (rule updateWork_data)
  show ?thesis
    using cold_start_x_block [of ex_d ex_w ex_E ex_sol "()" ex_r 1 0 "[]" ex_d ex_w 0 ex_r]
      ex_work_ok n
    by (simp add: d Let_def)
qed

end
